theory Spec2Isabelle
  imports Complex_Main
begin

section \<open>Input: ButtonState\<close>

text \<open>
  The class \<open>ButtonState<T>\<close> of the app module: four JavaScript \<open>Set\<close>s over the
  symbol type. Only membership is observed by the properties below, so each set is a
  HOL set; \<open>add\<close> is \<open>insert\<close>, \<open>delete\<close> is set difference, \<open>clear\<close> is \<open>{}\<close>.
\<close>

record 'a ButtonState =
  pressed :: "'a set"
  pressedRepeat :: "'a set"
  released :: "'a set"
  down :: "'a set"

definition newButtonState :: "'a ButtonState" where
  "newButtonState = \<lparr>pressed = {}, pressedRepeat = {}, released = {}, down = {}\<rparr>"

definition update :: "'a ButtonState \<Rightarrow> 'a ButtonState" where
  "update bs = bs\<lparr>pressed := {}, released := {}, pressedRepeat := {}\<rparr>"

definition press :: "'a \<Rightarrow> 'a ButtonState \<Rightarrow> 'a ButtonState" where
  "press btn bs =
     bs\<lparr>pressed := insert btn (pressed bs),
        pressedRepeat := insert btn (pressedRepeat bs),
        down := insert btn (down bs)\<rparr>"

definition pressRepeat :: "'a \<Rightarrow> 'a ButtonState \<Rightarrow> 'a ButtonState" where
  "pressRepeat btn bs = bs\<lparr>pressedRepeat := insert btn (pressedRepeat bs)\<rparr>"

definition release :: "'a \<Rightarrow> 'a ButtonState \<Rightarrow> 'a ButtonState" where
  "release btn bs =
     bs\<lparr>down := down bs - {btn},
        pressed := pressed bs - {btn},
        released := insert btn (released bs)\<rparr>"

section \<open>Audio: device context and decoded sources\<close>

text \<open>
  JavaScript numbers are modelled as exact reals: samples, gains, cursor positions and
  times carry no rounding, and there is no NaN or infinity. \<open>Date.now()\<close> is a
  parameter \<open>now\<close> of every operation that reads the clock (one reading per call).
\<close>

text \<open>
  The fields of \<open>_k.audio\<close> that rendering reads: \<open>device.channels\<close>,
  \<open>device.frequency\<close> and \<open>masterVolume\<close>.
\<close>

record InternalAudioCtx =
  deviceChannels :: nat
  deviceFrequency :: real
  masterVolume :: real

text \<open>
  The decoded \<open>AudioBuffer\<close> handed to \<open>start\<close>: \<open>frameCount\<close> is its
  \<open>length\<close>, \<open>getChannelData c\<close> the samples of channel \<open>c\<close>.
\<close>

record AudioBuffer =
  sampleRate :: real
  numberOfChannels :: nat
  frameCount :: nat
  getChannelData :: "nat \<Rightarrow> real list"

record AudioPlayOpt =
  paused :: "bool option"
  loop :: "bool option"
  volume :: "real option"
  speed :: "real option"
  detune :: "real option"
  seek :: "real option"
  pan :: "real option"

text \<open>
  The closure variables of one handle returned by \<open>playMusic\<close>, followed by what
  the handle does to the outside, as for the handle of \<open>play\<close> below.
\<close>

record Music =
  isPlaying :: bool
  isPaused :: bool
  currentTime :: real
  duration :: real
  looping :: bool
  volume :: real
  playbackRate :: real
  audioData :: "real list option"
  sampleRate :: real
  channels :: nat
  playbackPosition :: real
  playbackId :: "nat option"
  isLoaded :: bool
  onEndTriggered :: nat
  queue :: "real list list"
  timers :: "nat \<rightharpoonup> real"
  nextTimer :: nat

text \<open>
  The closure variables of one handle returned by \<open>play\<close>, followed by what the handle
  does to the outside: \<open>onEndTriggered\<close> counts the calls of \<open>onEndEvents.trigger()\<close>,
  \<open>queue\<close> is the device queue (chunks in the order of \<open>device.enqueue\<close>, emptied by
  \<open>device.clearQueue\<close>), \<open>timers\<close> the pending timeouts of this handle with their
  delay in milliseconds, \<open>nextTimer\<close> the next fresh timeout id.
\<close>

record Sound =
  paused :: bool
  volume :: real
  pan :: real
  speed :: real
  detune :: real
  loop :: bool
  seekPos :: real
  audioBuffer :: "real list option"
  sampleRate :: real
  channels :: nat
  playbackPosition :: real
  startTime :: real
  pauseTime :: real
  isPlaying :: bool
  playbackId :: "nat option"
  onEndTriggered :: nat
  queue :: "real list list"
  timers :: "nat \<rightharpoonup> real"
  nextTimer :: nat

text \<open>
  The initial values of the closure variables in \<open>play(src, opt)\<close>, for a source
  that is not a registered music asset (that one goes to \<open>playMusic\<close>).
\<close>

definition play :: "AudioPlayOpt \<Rightarrow> Sound" where
  "play opt =
     \<lparr>paused = (case AudioPlayOpt.paused opt of None \<Rightarrow> False | Some p \<Rightarrow> p),
      volume = (case AudioPlayOpt.volume opt of None \<Rightarrow> 1 | Some v \<Rightarrow> v),
      pan = (case AudioPlayOpt.pan opt of None \<Rightarrow> 0 | Some p \<Rightarrow> p),
      speed = (case AudioPlayOpt.speed opt of None \<Rightarrow> 1 | Some v \<Rightarrow> v),
      detune = (case AudioPlayOpt.detune opt of None \<Rightarrow> 0 | Some d \<Rightarrow> d),
      loop = (case AudioPlayOpt.loop opt of None \<Rightarrow> False | Some l \<Rightarrow> l),
      seekPos = (case AudioPlayOpt.seek opt of None \<Rightarrow> 0 | Some t \<Rightarrow> t),
      audioBuffer = None,
      sampleRate = 44100,
      channels = 1,
      playbackPosition = 0,
      startTime = 0,
      pauseTime = 0,
      isPlaying = False,
      playbackId = None,
      onEndTriggered = 0,
      queue = [],
      timers = Map.empty,
      nextTimer = 0\<rparr>"

text \<open>
  \<open>audioBuffer[i] || 0\<close>: an index outside the array reads \<open>undefined\<close>, which
  \<open>|| 0\<close> turns into 0.
\<close>

definition sampleAt :: "real list \<Rightarrow> int \<Rightarrow> real" where
  "sampleAt buf i = (if 0 \<le> i \<and> i < int (length buf) then buf ! nat i else 0)"

text \<open>The loop \<open>for (let j = i; j < chunkSize; j++) chunk[j] = 0\<close>.\<close>

definition fillSilence :: "nat \<Rightarrow> nat \<Rightarrow> real list \<Rightarrow> real list" where
  "fillSilence i chunkSize chunk = fold (\<lambda>j c. c[j := 0]) [i..<chunkSize] chunk"

text \<open>
  The constants computed in the body of the \<open>for\<close> loop of \<open>scheduleNextChunk\<close>;
  \<open>buf\<close> is the non-null \<open>audioBuffer\<close>.
\<close>

definition sourceIndex :: "Sound \<Rightarrow> int" where
  "sourceIndex s = \<lfloor>playbackPosition s\<rfloor> * int (channels s)"

definition leftSample :: "real list \<Rightarrow> Sound \<Rightarrow> real" where
  "leftSample buf s = sampleAt buf (sourceIndex s)"

definition rightSample :: "real list \<Rightarrow> Sound \<Rightarrow> real" where
  "rightSample buf s =
     (if 1 < channels s then sampleAt buf (sourceIndex s + 1) else leftSample buf s)"

definition leftGain :: "Sound \<Rightarrow> real" where
  "leftGain s = volume s * (1 - max 0 (pan s))"

definition rightGain :: "Sound \<Rightarrow> real" where
  "rightGain s = volume s * (1 + min 0 (pan s))"

text \<open>
  The writes of one output frame at index \<open>i\<close> (volume and pan for stereo output,
  mix-down otherwise). A write past the end of a typed array is ignored, as a list
  update past the end is.
\<close>

definition writeFrame :: "InternalAudioCtx \<Rightarrow> real list \<Rightarrow> nat \<Rightarrow> Sound \<Rightarrow> real list \<Rightarrow> real list" where
  "writeFrame k buf i s chunk =
     (if deviceChannels k = 2 then
        (chunk[i := leftSample buf s * leftGain s * masterVolume k])
          [i + 1 := rightSample buf s * rightGain s * masterVolume k]
      else
        chunk[i := ((leftSample buf s + rightSample buf s) / 2) * volume s * masterVolume k])"

text \<open>
  The \<open>for\<close> loop of \<open>scheduleNextChunk\<close>, from index \<open>i\<close> on:
  \<open>for (let i = 0; i < chunkSize; i += deviceChannels)\<close> with
  \<open>chunkSize = 2048 * deviceChannels\<close>.
\<close>

function chunkLoop ::
  "InternalAudioCtx \<Rightarrow> real list \<Rightarrow> nat \<Rightarrow> Sound \<Rightarrow> real list \<Rightarrow> Sound \<times> real list" where
  "chunkLoop k buf i s chunk =
     (if i < 2048 * deviceChannels k then
        (if int (length buf) \<le> sourceIndex s then
           (if loop s then
              chunkLoop k buf (i + deviceChannels k) (s\<lparr>playbackPosition := 0\<rparr>) chunk
            else
              (s\<lparr>isPlaying := False, onEndTriggered := Suc (onEndTriggered s)\<rparr>,
               fillSilence i (2048 * deviceChannels k) chunk))
         else
           chunkLoop k buf (i + deviceChannels k)
             (s\<lparr>playbackPosition := playbackPosition s + speed s\<rparr>)
             (writeFrame k buf i s chunk))
      else (s, chunk))"
  by pat_completeness auto
termination
  by (relation "measure (\<lambda>(k, buf, i, s, chunk). 2048 * deviceChannels k - i)") auto

text \<open>
  \<open>scheduleNextChunk\<close>: render one chunk, enqueue it, set the next timeout (half the
  chunk's duration, in milliseconds).
\<close>

definition scheduleNextChunk :: "InternalAudioCtx \<Rightarrow> Sound \<Rightarrow> Sound" where
  "scheduleNextChunk k s =
     (case audioBuffer s of
        None \<Rightarrow> s
      | Some buf \<Rightarrow>
          if \<not> isPlaying s then s
          else
            (let chunkSize = 2048 * deviceChannels k;
                 (s', chunk) = chunkLoop k buf 0 s (replicate chunkSize 0);
                 chunkDuration =
                   (real chunkSize / real (deviceChannels k) / deviceFrequency k) * 1000
             in s'\<lparr>queue := queue s' @ [chunk],
                    playbackId := Some (nextTimer s'),
                    timers := (timers s')(nextTimer s' \<mapsto> chunkDuration * 0.5),
                    nextTimer := Suc (nextTimer s')\<rparr>))"

definition startPlayback :: "InternalAudioCtx \<Rightarrow> real \<Rightarrow> Sound \<Rightarrow> Sound" where
  "startPlayback k now s =
     (if audioBuffer s = None \<or> isPlaying s then s
      else scheduleNextChunk k
             (s\<lparr>isPlaying := True,
                startTime := now,
                playbackPosition := seekPos s * sampleRate s\<rparr>))"

definition stopPlayback :: "Sound \<Rightarrow> Sound" where
  "stopPlayback s =
     (case playbackId s of
        Some t \<Rightarrow> s\<lparr>timers := (timers s)(t := None), playbackId := None\<rparr>
      | None \<Rightarrow> s)
     \<lparr>isPlaying := False, queue := []\<rparr>"

text \<open>
  The nested loops of \<open>start\<close> that interleave the channels:
  \<open>audioBuffer[frame * channels + channel] = channelData[frame]\<close>. Every channel of
  a decoded buffer holds \<open>frameCount\<close> samples.
\<close>

definition interleave :: "AudioBuffer \<Rightarrow> real list" where
  "interleave b =
     concat (map (\<lambda>frame. map (\<lambda>channel. getChannelData b channel ! frame)
                               [0..<numberOfChannels b])
                 [0..<frameCount b])"

definition start :: "InternalAudioCtx \<Rightarrow> real \<Rightarrow> AudioBuffer \<Rightarrow> Sound \<Rightarrow> Sound" where
  "start k now b s =
     (let s1 = s\<lparr>sampleRate := AudioBuffer.sampleRate b,
                  channels := numberOfChannels b,
                  audioBuffer := Some (interleave b)\<rparr>
      in if \<not> paused s1 then startPlayback k now s1 else s1)"

text \<open>
  JavaScript's \<open>%\<close> on numbers: the remainder has the sign of the dividend (the
  quotient is truncated towards zero).
\<close>

definition jsRem :: "real \<Rightarrow> real \<Rightarrow> real" where
  "jsRem a b =
     a - b * of_int (if 0 \<le> a / b then \<lfloor>a / b\<rfloor> else \<lceil>a / b\<rceil>)"

definition getTime :: "real \<Rightarrow> Sound \<Rightarrow> real" where
  "getTime now s =
     (case audioBuffer s of
        None \<Rightarrow> 0
      | Some buf \<Rightarrow>
          (let t = (if paused s then pauseTime s - startTime s else now - startTime s);
               d = (real (length buf) / real (channels s) / sampleRate s) * 1000
           in if loop s then jsRem t d / 1000 else min (t / 1000) (d / 1000)))"

definition set_paused :: "InternalAudioCtx \<Rightarrow> real \<Rightarrow> bool \<Rightarrow> Sound \<Rightarrow> Sound" where
  "set_paused k now p s =
     (if paused s = p then s
      else if p then (stopPlayback (s\<lparr>paused := p\<rparr>))\<lparr>pauseTime := now\<rparr>
      else startPlayback k now
             (s\<lparr>paused := p, startTime := now - (pauseTime s - startTime s)\<rparr>))"

definition seek :: "InternalAudioCtx \<Rightarrow> real \<Rightarrow> real \<Rightarrow> Sound \<Rightarrow> Sound" where
  "seek k now time s =
     (case audioBuffer s of
        None \<Rightarrow> s
      | Some buf \<Rightarrow>
          (let duration = real (length buf) / real (channels s) / sampleRate s
           in if duration < time then s
              else
                (let s1 = s\<lparr>seekPos := time, playbackPosition := time * sampleRate s\<rparr>
                 in if \<not> paused s1
                    then startPlayback k now ((stopPlayback s1)\<lparr>startTime := now\<rparr>)
                    else s1)))"

definition stop :: "InternalAudioCtx \<Rightarrow> real \<Rightarrow> Sound \<Rightarrow> Sound" where
  "stop k now s = seek k now 0 (set_paused k now True s)"

definition play_at :: "InternalAudioCtx \<Rightarrow> real \<Rightarrow> real \<Rightarrow> Sound \<Rightarrow> Sound" where
  "play_at k now time s = set_paused k now False (seek k now time s)"

definition set_speed :: "real \<Rightarrow> Sound \<Rightarrow> Sound" where
  "set_speed val s = s\<lparr>speed := val\<rparr>"

definition set_detune :: "real \<Rightarrow> Sound \<Rightarrow> Sound" where
  "set_detune val s = s\<lparr>detune := val, speed := 2 powr (val / 1200)\<rparr>"

definition set_volume :: "real \<Rightarrow> Sound \<Rightarrow> Sound" where
  "set_volume val s = s\<lparr>volume := max val 0\<rparr>"

definition set_pan :: "real \<Rightarrow> Sound \<Rightarrow> Sound" where
  "set_pan p s = s\<lparr>pan := max (-1) (min 1 p)\<rparr>"

definition set_loop :: "bool \<Rightarrow> Sound \<Rightarrow> Sound" where
  "set_loop l s = s\<lparr>loop := l\<rparr>"

definition duration :: "Sound \<Rightarrow> real" where
  "duration s =
     (case audioBuffer s of
        Some buf \<Rightarrow> real (length buf) / real (channels s) / sampleRate s
      | None \<Rightarrow> 0)"

text \<open>
  The render timer of the handle fires: the timeout held in \<open>playbackId\<close>, if it is
  still pending, leaves the pending set and runs its callback \<open>scheduleNextChunk\<close>.
  \<open>timerFiresTimes n\<close> lets it fire \<open>n\<close> times in a row, with no other call on the
  handle in between.
\<close>

definition timerFires :: "InternalAudioCtx \<Rightarrow> Sound \<Rightarrow> Sound" where
  "timerFires k s =
     (case playbackId s of
        None \<Rightarrow> s
      | Some t \<Rightarrow>
          if timers s t = None then s
          else scheduleNextChunk k (s\<lparr>timers := (timers s)(t := None)\<rparr>))"

definition timerFiresTimes :: "InternalAudioCtx \<Rightarrow> nat \<Rightarrow> Sound \<Rightarrow> Sound" where
  "timerFiresTimes k n s = (timerFires k ^^ n) s"

text \<open>
  The samples that reached the device queue between the states \<open>s0\<close> and \<open>s\<close>, in
  order (for a queue that was not cleared in between).
\<close>

definition deliveredSince :: "Sound \<Rightarrow> Sound \<Rightarrow> real list" where
  "deliveredSince s0 s = concat (drop (length (queue s0)) (queue s))"

section \<open>Audio: music handles\<close>

text \<open>
  Modelled from the spec: \<open>clamp\<close> of \<open>math/clamp\<close> is imported by the music handle
  and is not among the sources. The spec gives the volume field the range 0..1, so
  \<open>clamp(v, lo, hi)\<close> is the value brought into \<open>lo..hi\<close>.
\<close>

definition clamp :: "real \<Rightarrow> real \<Rightarrow> real \<Rightarrow> real" where
  "clamp val lo hi = min (max val lo) hi"

text \<open>
  The initial values of the closure variables in \<open>playMusic(url, opt)\<close>. Decoding is
  asynchronous: the call of \<open>play()\<close> at the end of \<open>playMusic\<close> finds
  \<open>isLoaded\<close> false and does nothing.
\<close>

definition playMusic :: "AudioPlayOpt \<Rightarrow> Music" where
  "playMusic opt =
     \<lparr>Music.isPlaying = False,
      isPaused = (case AudioPlayOpt.paused opt of None \<Rightarrow> False | Some p \<Rightarrow> p),
      currentTime = 0,
      Music.duration = 0,
      looping = (case AudioPlayOpt.loop opt of None \<Rightarrow> False | Some l \<Rightarrow> l),
      Music.volume = (case AudioPlayOpt.volume opt of None \<Rightarrow> 1 | Some v \<Rightarrow> v),
      playbackRate = 1,
      audioData = None,
      Music.sampleRate = 44100,
      Music.channels = 2,
      Music.playbackPosition = 0,
      Music.playbackId = None,
      isLoaded = False,
      Music.onEndTriggered = 0,
      Music.queue = [],
      Music.timers = Map.empty,
      Music.nextTimer = 0\<rparr>"

text \<open>The writes of one output frame in the \<open>while\<close> loop of the music handle.\<close>

definition music_writeFrame ::
  "InternalAudioCtx \<Rightarrow> real list \<Rightarrow> nat \<Rightarrow> Music \<Rightarrow> real list \<Rightarrow> real list" where
  "music_writeFrame k buf samplesWritten m chunk =
     (let sourceIndex = \<lfloor>Music.playbackPosition m\<rfloor> * int (Music.channels m);
          leftSample = sampleAt buf sourceIndex;
          rightSample =
            (if 1 < Music.channels m then sampleAt buf (sourceIndex + 1) else leftSample);
          leftVol = leftSample * Music.volume m;
          rightVol = rightSample * Music.volume m
      in if deviceChannels k = 2 then
           (chunk[samplesWritten := leftVol * masterVolume k])
             [samplesWritten + 1 := rightVol * masterVolume k]
         else
           chunk[samplesWritten := ((leftVol + rightVol) / 2) * masterVolume k])"

text \<open>
  The loop \<open>while (samplesWritten < chunkSize)\<close> with \<open>chunkSize = 4096 *
  deviceChannels\<close>. A looping handle over an empty buffer never leaves it, so the
  result is optional: \<open>None\<close> is the loop that never returns.
\<close>

partial_function (option) music_chunkLoop ::
  "InternalAudioCtx \<Rightarrow> real list \<Rightarrow> nat \<Rightarrow> Music \<Rightarrow> real list \<Rightarrow> (Music \<times> real list) option" where
  "music_chunkLoop k buf samplesWritten m chunk =
     (if samplesWritten < 4096 * deviceChannels k then
        (if int (length buf) \<le> \<lfloor>Music.playbackPosition m\<rfloor> * int (Music.channels m) then
           (if looping m then
              music_chunkLoop k buf samplesWritten
                (m\<lparr>Music.playbackPosition := 0, currentTime := 0\<rparr>) chunk
            else
              Some (m\<lparr>Music.isPlaying := False,
                       Music.onEndTriggered := Suc (Music.onEndTriggered m)\<rparr>,
                    fillSilence samplesWritten (4096 * deviceChannels k) chunk))
         else
           music_chunkLoop k buf
             (if deviceChannels k = 2 then samplesWritten + 2 else samplesWritten + 1)
             (m\<lparr>Music.playbackPosition := Music.playbackPosition m + playbackRate m,
                currentTime := (Music.playbackPosition m + playbackRate m) / Music.sampleRate m\<rparr>)
             (music_writeFrame k buf samplesWritten m chunk))
      else Some (m, chunk))"

definition music_scheduleNextChunk :: "InternalAudioCtx \<Rightarrow> Music \<Rightarrow> Music option" where
  "music_scheduleNextChunk k m =
     (case audioData m of
        None \<Rightarrow> Some m
      | Some buf \<Rightarrow>
          if \<not> Music.isPlaying m \<or> isPaused m then Some m
          else
            (case music_chunkLoop k buf 0 m (replicate (4096 * deviceChannels k) 0) of
               None \<Rightarrow> None
             | Some (m', chunk) \<Rightarrow>
                 Some (m'\<lparr>Music.queue := Music.queue m' @ [chunk],
                          Music.playbackId := Some (Music.nextTimer m'),
                          Music.timers := (Music.timers m')(Music.nextTimer m' \<mapsto>
                            (real (4096 * deviceChannels k) / real (deviceChannels k)
                               / deviceFrequency k) * 1000 * 0.5),
                          Music.nextTimer := Suc (Music.nextTimer m')\<rparr>)))"

text \<open>The inner function \<open>play\<close> of \<open>playMusic\<close> (\<open>resumeAudioCtx\<close> has no effect).\<close>

definition music_play :: "InternalAudioCtx \<Rightarrow> Music \<Rightarrow> Music option" where
  "music_play k m =
     (if \<not> isLoaded m then Some m
      else if \<not> Music.isPlaying m then music_scheduleNextChunk k (m\<lparr>Music.isPlaying := True\<rparr>)
      else Some m)"

definition music_stopPlayback :: "Music \<Rightarrow> Music" where
  "music_stopPlayback m =
     (case Music.playbackId m of
        Some t \<Rightarrow> m\<lparr>Music.timers := (Music.timers m)(t := None), Music.playbackId := None\<rparr>
      | None \<Rightarrow> m)
     \<lparr>Music.isPlaying := False, Music.queue := []\<rparr>"

text \<open>\<open>loadAudio\<close> from the point where decoding has succeeded with the buffer \<open>b\<close>.\<close>

definition loadAudio :: "InternalAudioCtx \<Rightarrow> AudioBuffer \<Rightarrow> Music \<Rightarrow> Music option" where
  "loadAudio k b m =
     (let m1 = m\<lparr>Music.sampleRate := AudioBuffer.sampleRate b,
                  Music.channels := numberOfChannels b,
                  audioData := Some (interleave b),
                  Music.duration := real (frameCount b) / AudioBuffer.sampleRate b,
                  isLoaded := True\<rparr>
      in if \<not> isPaused m1 \<and> \<not> Music.isPlaying m1 then music_play k m1 else Some m1)"

text \<open>The methods of the handle returned by \<open>playMusic\<close>.\<close>

definition music_handle_play :: "InternalAudioCtx \<Rightarrow> Music \<Rightarrow> Music option" where
  "music_handle_play k m = music_play k (m\<lparr>isPaused := False\<rparr>)"

definition music_seek :: "real \<Rightarrow> Music \<Rightarrow> Music" where
  "music_seek time m =
     (case audioData m of
        None \<Rightarrow> m
      | Some d \<Rightarrow>
          m\<lparr>currentTime := clamp time 0 (Music.duration m),
             Music.playbackPosition := clamp time 0 (Music.duration m) * Music.sampleRate m\<rparr>)"

definition music_stop :: "Music \<Rightarrow> Music" where
  "music_stop m = music_seek 0 ((music_stopPlayback m)\<lparr>isPaused := True\<rparr>)"

definition music_set_loop :: "bool \<Rightarrow> Music \<Rightarrow> Music" where
  "music_set_loop l m = m\<lparr>looping := l\<rparr>"

definition music_set_paused :: "InternalAudioCtx \<Rightarrow> bool \<Rightarrow> Music \<Rightarrow> Music option" where
  "music_set_paused k p m =
     (if p = isPaused m then Some m
      else if p then Some (music_stopPlayback (m\<lparr>isPaused := p\<rparr>))
      else music_play k (m\<lparr>isPaused := p\<rparr>))"

definition music_time :: "Music \<Rightarrow> real" where
  "music_time m = currentTime m"

definition music_set_volume :: "real \<Rightarrow> Music \<Rightarrow> Music" where
  "music_set_volume val m = m\<lparr>Music.volume := clamp val 0 1\<rparr>"

definition music_set_speed :: "real \<Rightarrow> Music \<Rightarrow> Music" where
  "music_set_speed s m = m\<lparr>playbackRate := max s 0\<rparr>"

definition music_set_detune :: "real \<Rightarrow> Music \<Rightarrow> Music" where
  "music_set_detune d m = m\<lparr>playbackRate := 2 powr (d / 1200)\<rparr>"

section \<open>App state, frame scheduler\<close>

text \<open>\<open>FPSCounter\<close>; \<open>Math.round\<close> is \<open>round\<close> (half rounds up).\<close>

record FPSCounter =
  dts :: "real list"
  timer :: real
  fps :: real

definition tick :: "real \<Rightarrow> FPSCounter \<Rightarrow> FPSCounter" where
  "tick d c =
     (let c1 = c\<lparr>dts := dts c @ [d], timer := timer c + d\<rparr>
      in if 1 \<le> timer c1
         then c1\<lparr>timer := 0,
                 fps := of_int (round (1 / (sum_list (dts c1) / real (length (dts c1))))),
                 dts := []\<rparr>
         else c1)"

type_synonym KGamepadButton = string
type_synonym KGamepadStick = string

record GamepadState =
  buttonState :: "KGamepadButton ButtonState"
  stickState :: "KGamepadStick \<rightharpoonup> real \<times> real"

datatype InputDevice = Mouse | Keyboard | Gamepad

text \<open>
  The notifications of \<open>state.events.trigger\<close> that gamepad button polling emits, with
  their arguments; a gamepad is named by its index.
\<close>

datatype AppEvent =
    GamepadButtonDown KGamepadButton nat
  | GamepadButtonPress KGamepadButton nat
  | GamepadButtonRelease KGamepadButton nat
  | ButtonPress string
  | ButtonRelease string

text \<open>
  The fields of the object built by \<open>initAppState\<close> that the frame scheduler and the
  gamepad button polling read or write. \<open>events\<close> is the log of notifications
  triggered, oldest first.
\<close>

record AppState =
  buttonsByGamepad :: "KGamepadButton \<rightharpoonup> string list"
  stopped :: bool
  dt :: real
  fixedDt :: real
  restDt :: real
  time :: real
  realTime :: real
  fpsCounter :: FPSCounter
  timeScale :: real
  skipTime :: bool
  isHidden :: bool
  numFrames :: nat
  mergedGamepadState :: GamepadState
  gamepadStates :: "nat \<rightharpoonup> GamepadState"
  lastInputDevice :: "InputDevice option"
  buttonState :: "string ButtonState"
  events :: "AppEvent list"

definition newGamepadState :: GamepadState where
  "newGamepadState = \<lparr>GamepadState.buttonState = newButtonState, stickState = Map.empty\<rparr>"

definition initAppState :: AppState where
  "initAppState =
     \<lparr>buttonsByGamepad = Map.empty,
      stopped = False,
      dt = 0,
      fixedDt = 1 / 50,
      restDt = 0,
      time = 0,
      realTime = 0,
      fpsCounter = \<lparr>dts = [], timer = 0, fps = 0\<rparr>,
      timeScale = 1,
      skipTime = False,
      isHidden = False,
      numFrames = 0,
      mergedGamepadState = newGamepadState,
      gamepadStates = Map.empty,
      lastInputDevice = None,
      buttonState = newButtonState,
      events = []\<rparr>"

text \<open>
  The closure of \<open>run\<close>: the app state together with the local variables
  \<open>fixedAccumulatedDt\<close>, \<open>accumulatedDt\<close>, \<open>lastTime\<close>. The callbacks
  \<open>fixedUpdate\<close> and \<open>update\<close> are outside the scheduler: the model counts their
  invocations and takes them not to write the scheduler's variables.
  \<open>frameScheduled\<close> records that \<open>setImmediate(frame)\<close> was called.
\<close>

record Run = AppState +
  fixedAccumulatedDt :: real
  accumulatedDt :: real
  lastTime :: real
  fixedUpdateCalls :: nat
  updateCalls :: nat
  frameScheduled :: bool

text \<open>
  \<open>run\<close> up to its first call of \<open>frame\<close>; \<open>now\<close> is \<open>performance.now() / 1000\<close>.
\<close>

definition run :: "real \<Rightarrow> AppState \<Rightarrow> Run" where
  "run now st =
     AppState.extend st
       \<lparr>fixedAccumulatedDt = 0, accumulatedDt = 0, lastTime = now,
        fixedUpdateCalls = 0, updateCalls = 0, frameScheduled = False\<rparr>"

text \<open>
  The loop \<open>while (fixedAccumulatedDt > state.fixedDt)\<close>. It does not end when
  \<open>fixedDt\<close> is not positive, so its result is optional: \<open>None\<close> is the loop that
  never returns.
\<close>

partial_function (option) fixedLoop :: "Run \<Rightarrow> Run option" where
  "fixedLoop r =
     (if fixedDt r < fixedAccumulatedDt r then
        fixedLoop
          ((if fixedAccumulatedDt r - fixedDt r < fixedDt r
            then r\<lparr>fixedAccumulatedDt := fixedAccumulatedDt r - fixedDt r,
                   restDt := fixedAccumulatedDt r - fixedDt r\<rparr>
            else r\<lparr>fixedAccumulatedDt := fixedAccumulatedDt r - fixedDt r\<rparr>)
           \<lparr>fixedUpdateCalls := Suc (fixedUpdateCalls r)\<rparr>)
      else Some r)"

text \<open>
  One call of \<open>frame\<close>; \<open>maxFPS\<close> is \<open>opt.maxFPS\<close> (absent, or a number, of which 0
  counts as absent), \<open>now\<close> is the \<open>currentTime\<close> read from
  \<open>performance.now() / 1000\<close>.
\<close>

definition frame :: "real option \<Rightarrow> real \<Rightarrow> Run \<Rightarrow> Run option" where
  "frame maxFPS now r0 =
     (let r = r0\<lparr>frameScheduled := False\<rparr>
      in if stopped r then Some r
         else if isHidden r then Some (r\<lparr>frameScheduled := True\<rparr>)
         else
           (let realDt = min (now - lastTime r) 0.25;
                desiredDt = (case maxFPS of None \<Rightarrow> 0 | Some m \<Rightarrow> if m = 0 then 0 else 1 / m);
                r1 = r\<lparr>realTime := now, lastTime := now,
                       accumulatedDt := accumulatedDt r + realDt\<rparr>
            in if desiredDt < accumulatedDt r1 then
                 (case (if \<not> skipTime r1 then
                          (case fixedLoop
                                  (r1\<lparr>fixedAccumulatedDt := fixedAccumulatedDt r1 + accumulatedDt r1,
                                      dt := fixedDt r1,
                                      restDt := 0\<rparr>) of
                             None \<Rightarrow> None
                           | Some r2 \<Rightarrow>
                               Some (r2\<lparr>restDt := fixedAccumulatedDt r2,
                                         dt := accumulatedDt r2,
                                         time := time r2 + accumulatedDt r2 * timeScale r2,
                                         fpsCounter := tick (accumulatedDt r2) (fpsCounter r2)\<rparr>))
                        else Some r1) of
                    None \<Rightarrow> None
                  | Some r3 \<Rightarrow>
                      Some (r3\<lparr>accumulatedDt := 0,
                                skipTime := False,
                                numFrames := Suc (numFrames r3),
                                updateCalls := Suc (updateCalls r3),
                                frameScheduled := True\<rparr>))
               else Some (r1\<lparr>frameScheduled := True\<rparr>)))"

section \<open>Gamepad button polling\<close>

text \<open>
  The button table of a gamepad mapping (\<open>map.buttons\<close>, keyed by button index) and
  \<open>Object.keys(controller.buttons)\<close>, the names of the controller's buttons, beside the
  pressed flag the device reports for each.
\<close>

type_synonym GamepadButtons = "nat \<rightharpoonup> KGamepadButton"
type_synonym ControllerButtons = "(string \<times> bool) list"

text \<open>The \<open>forEach\<close> over the virtual buttons bound to a gamepad button.\<close>

definition pressBound :: "string list \<Rightarrow> AppState \<Rightarrow> AppState" where
  "pressBound btns st =
     fold (\<lambda>btn st. st\<lparr>buttonState := press btn (buttonState st),
                          events := events st @ [ButtonPress btn]\<rparr>) btns st"

definition releaseBound :: "string list \<Rightarrow> AppState \<Rightarrow> AppState" where
  "releaseBound btns st =
     fold (\<lambda>btn st. st\<lparr>buttonState := release btn (buttonState st),
                          events := events st @ [ButtonRelease btn]\<rparr>) btns st"

text \<open>
  The body of the loop over the button indices in \<open>processGamepad\<close>, for the gamepad
  with index \<open>gp\<close>, whose state is \<open>gamepadStates.get(gp)\<close> (the loop is entered only
  when that state exists). \<open>isPressed\<close> is \<open>Object.keys(controller.buttons)[i]\<close>, a
  button name: a string, which \<open>if (isPressed)\<close> takes as true when it is not empty.
  A missing or empty \<open>map.buttons[i]\<close> skips the index.
\<close>

definition processButton ::
  "GamepadButtons \<Rightarrow> nat \<Rightarrow> ControllerButtons \<Rightarrow> nat \<Rightarrow> AppState \<Rightarrow> AppState" where
  "processButton mapButtons gp controllerButtons i st =
     (case mapButtons i of
        None \<Rightarrow> st
      | Some gamepadBtn \<Rightarrow>
          if gamepadBtn = [] then st
          else
            (case gamepadStates st gp of
               None \<Rightarrow> st
             | Some gamepadState \<Rightarrow>
                 (let isPressed = map fst controllerButtons ! i;
                      isGamepadButtonBind = (buttonsByGamepad st gamepadBtn \<noteq> None)
                  in if isPressed \<noteq> [] then
                       (if gamepadBtn \<in> down (GamepadState.buttonState gamepadState) then
                          st\<lparr>events := events st @ [GamepadButtonDown gamepadBtn gp]\<rparr>
                        else
                          (let st1 = st\<lparr>lastInputDevice := Some Gamepad\<rparr>;
                               st2 = (case buttonsByGamepad st1 gamepadBtn of
                                        Some btns \<Rightarrow> pressBound btns st1
                                      | None \<Rightarrow> st1)
                           in st2\<lparr>mergedGamepadState :=
                                    (mergedGamepadState st2)
                                      \<lparr>GamepadState.buttonState :=
                                         press gamepadBtn
                                           (GamepadState.buttonState (mergedGamepadState st2))\<rparr>,
                                  gamepadStates :=
                                    (gamepadStates st2)
                                      (gp \<mapsto> gamepadState
                                         \<lparr>GamepadState.buttonState :=
                                            press gamepadBtn
                                              (GamepadState.buttonState gamepadState)\<rparr>),
                                  events := events st2 @ [GamepadButtonPress gamepadBtn gp]\<rparr>))
                     else if gamepadBtn \<in> down (GamepadState.buttonState gamepadState) then
                       (let st2 = (case buttonsByGamepad st gamepadBtn of
                                     Some btns \<Rightarrow> releaseBound btns st
                                   | None \<Rightarrow> st)
                        in st2\<lparr>mergedGamepadState :=
                                 (mergedGamepadState st2)
                                   \<lparr>GamepadState.buttonState :=
                                      release gamepadBtn
                                        (GamepadState.buttonState (mergedGamepadState st2))\<rparr>,
                               gamepadStates :=
                                 (gamepadStates st2)
                                   (gp \<mapsto> gamepadState
                                      \<lparr>GamepadState.buttonState :=
                                         release gamepadBtn
                                           (GamepadState.buttonState gamepadState)\<rparr>),
                               events := events st2 @ [GamepadButtonRelease gamepadBtn gp]\<rparr>)
                     else st)))"

text \<open>
  The loop \<open>for (let i = 0; i < Object.keys(controller.buttons).length; i++)\<close>.
\<close>

definition processButtons ::
  "GamepadButtons \<Rightarrow> nat \<Rightarrow> ControllerButtons \<Rightarrow> AppState \<Rightarrow> AppState" where
  "processButtons mapButtons gp controllerButtons st =
     fold (processButton mapButtons gp controllerButtons) [0..<length controllerButtons] st"

text \<open>
  The query \<open>isDown\<close> of the gamepad handle built by \<open>registerGamepad\<close>:
  \<open>gamepadState?.buttonState.down.has(btn) ?? false\<close>.
\<close>

definition isDown :: "nat \<Rightarrow> KGamepadButton \<Rightarrow> AppState \<Rightarrow> bool" where
  "isDown gp btn st =
     (case gamepadStates st gp of
        None \<Rightarrow> False
      | Some gamepadState \<Rightarrow> btn \<in> down (GamepadState.buttonState gamepadState))"

section \<open>Example inputs\<close>

text \<open>
  A stereo and a mono playback device, a decoded one-second mono source at 44100 Hz
  (every sample 1/2), and the empty option object.
\<close>

definition stereoDevice :: InternalAudioCtx where
  "stereoDevice = \<lparr>deviceChannels = 2, deviceFrequency = 48000, masterVolume = 1\<rparr>"

definition monoDevice :: InternalAudioCtx where
  "monoDevice = \<lparr>deviceChannels = 1, deviceFrequency = 48000, masterVolume = 1\<rparr>"

definition oneSecondMono :: AudioBuffer where
  "oneSecondMono =
     \<lparr>AudioBuffer.sampleRate = 44100, numberOfChannels = 1, frameCount = 44100,
      getChannelData = (\<lambda>c. replicate 44100 (1 / 2))\<rparr>"

definition noOpt :: AudioPlayOpt where
  "noOpt =
     \<lparr>AudioPlayOpt.paused = None, AudioPlayOpt.loop = None, AudioPlayOpt.volume = None,
      AudioPlayOpt.speed = None, AudioPlayOpt.detune = None, AudioPlayOpt.seek = None,
      AudioPlayOpt.pan = None\<rparr>"

text \<open>
  A handle created paused (\<open>play(src, { paused: true })\<close>) whose source has been
  decoded at clock reading 0.
\<close>

definition pausedHandle :: Sound where
  "pausedHandle =
     start stereoDevice 0 oneSecondMono (play (noOpt\<lparr>AudioPlayOpt.paused := Some True\<rparr>))"

text \<open>
  A handle created with the default options (\<open>play(src)\<close>) whose source has been
  decoded at clock reading 0: playback has started and the first chunk is queued.
\<close>

definition playingHandle :: Sound where
  "playingHandle = start stereoDevice 0 oneSecondMono (play noOpt)"

text \<open>
  An app state with one tracked gamepad, index 0, on which \<open>south\<close> is held, and the
  virtual button \<open>jump\<close> bound to \<open>south\<close> and held through it.
\<close>

definition heldSouth :: AppState where
  "heldSouth =
     initAppState
       \<lparr>buttonsByGamepad := [''south'' \<mapsto> [''jump'']],
        mergedGamepadState :=
          newGamepadState\<lparr>GamepadState.buttonState := press ''south'' newButtonState\<rparr>,
        gamepadStates :=
          [0 \<mapsto> newGamepadState\<lparr>GamepadState.buttonState := press ''south'' newButtonState\<rparr>],
        buttonState := press ''jump'' newButtonState\<rparr>"

section \<open>Properties of ButtonState\<close>

text \<open>
  C7. For every ButtonState and every symbol \<open>s\<close>: \<open>press(s)\<close> immediately followed
  by \<open>release(s)\<close>, with no \<open>update()\<close> in between, leaves \<open>s\<close> in \<open>released\<close>, not in
  \<open>down\<close> and not in \<open>pressed\<close>: the pressed edge is retracted, the released edge stays.
\<close>

theorem press_release_same_frame:
  "s \<in> released (release s (press s bs))
   \<and> s \<notin> down (release s (press s bs))
   \<and> s \<notin> pressed (release s (press s bs))"
  by (simp add: press_def release_def)

text \<open>
  C8. For every ButtonState and every symbol \<open>s\<close>: after \<open>press(s)\<close> then \<open>update()\<close>,
  \<open>s\<close> is in \<open>down\<close> and in none of \<open>pressed\<close>, \<open>released\<close>, \<open>pressedRepeat\<close>;
  \<open>update()\<close> empties the three edge sets and leaves \<open>down\<close> as it was.
\<close>

theorem press_update_keeps_down:
  "s \<in> down (update (press s bs))
   \<and> s \<notin> pressed (update (press s bs))
   \<and> s \<notin> released (update (press s bs))
   \<and> s \<notin> pressedRepeat (update (press s bs))
   \<and> pressed (update b) = {}
   \<and> released (update b) = {}
   \<and> pressedRepeat (update b) = {}
   \<and> down (update b) = down b"
  by (simp add: press_def update_def)

section \<open>Rendering one chunk\<close>

lemma length_fillSilence: "length (fillSilence i n chunk) = length chunk"
proof -
  have "length (fold (\<lambda>j c. c[j := 0::real]) js chunk) = length chunk" for js
    by (induction js arbitrary: chunk) simp_all
  then show ?thesis by (simp add: fillSilence_def)
qed

lemma nth_fold_zero:
  "idx < length chunk \<Longrightarrow>
   fold (\<lambda>j c. c[j := 0::real]) js chunk ! idx = (if idx \<in> set js then 0 else chunk ! idx)"
proof (induction js arbitrary: chunk)
  case Nil
  then show ?case by simp
next
  case (Cons j js)
  then show ?case by (simp add: nth_list_update)
qed

lemma nth_fillSilence:
  "idx < length chunk \<Longrightarrow>
   fillSilence i n chunk ! idx = (if i \<le> idx \<and> idx < n then 0 else chunk ! idx)"
  by (simp add: fillSilence_def nth_fold_zero)

lemma length_writeFrame: "length (writeFrame k buf i s chunk) = length chunk"
  by (simp add: writeFrame_def)

lemma writeFrame_before: "idx < i \<Longrightarrow> writeFrame k buf i s chunk ! idx = chunk ! idx"
  by (simp add: writeFrame_def)

lemmas chunkLoop_unfold = chunkLoop.simps
declare chunkLoop.simps [simp del]

lemma length_chunkLoop: "length (snd (chunkLoop k buf i s chunk)) = length chunk"
proof (induction k buf i s chunk rule: chunkLoop.induct)
  case (1 k buf i s chunk)
  show ?case
    by (subst chunkLoop_unfold) (simp add: "1" length_fillSilence length_writeFrame)
qed

lemma chunkLoop_before:
  "idx < i \<Longrightarrow> idx < length chunk \<Longrightarrow> snd (chunkLoop k buf i s chunk) ! idx = chunk ! idx"
proof (induction k buf i s chunk rule: chunkLoop.induct)
  case (1 k buf i s chunk)
  show ?case
    by (subst chunkLoop_unfold)
       (use "1" in \<open>simp add: nth_fillSilence length_writeFrame writeFrame_before\<close>)
qed


lemma chunkLoop_frame:
  assumes "i < 2048 * deviceChannels k" "\<not> int (length buf) \<le> sourceIndex s"
    "idx < i + deviceChannels k" "idx < length chunk"
  shows "snd (chunkLoop k buf i s chunk) ! idx = writeFrame k buf i s chunk ! idx"
  using assms
  by (subst chunkLoop_unfold) (simp add: chunkLoop_before length_writeFrame)

text \<open>
  Rendering \<open>j\<close> frames that all lie inside the buffer advances the cursor by
  \<open>j\<close> strides and leaves the loop at frame \<open>j\<close>.
\<close>

lemma chunkLoop_advance:
  assumes "\<forall>j' < j. \<not> int (length buf) \<le> sourceIndex (s\<lparr>playbackPosition := playbackPosition s + real j' * speed s\<rparr>)"
    and "i + j * deviceChannels k \<le> 2048 * deviceChannels k"
    and "0 < deviceChannels k"
  shows "\<exists>c. length c = length chunk \<and> (\<forall>idx < i. idx < length chunk \<longrightarrow> c ! idx = chunk ! idx) \<and>
           chunkLoop k buf i s chunk =
           chunkLoop k buf (i + j * deviceChannels k)
             (s\<lparr>playbackPosition := playbackPosition s + real j * speed s\<rparr>) c"
  using assms
proof (induction j arbitrary: i s chunk)
  case 0
  then show ?case by auto
next
  case (Suc j)
  let ?s1 = "s\<lparr>playbackPosition := playbackPosition s + speed s\<rparr>"
  let ?c1 = "writeFrame k buf i s chunk"
  have dc: "0 < deviceChannels k" using Suc.prems(3) .
  have i: "i < 2048 * deviceChannels k" using Suc.prems(2) dc by simp
  have here: "\<not> int (length buf) \<le> sourceIndex s"
    using Suc.prems(1) [rule_format, of 0] by simp
  have step: "chunkLoop k buf i s chunk = chunkLoop k buf (i + deviceChannels k) ?s1 ?c1"
    using i here by (subst chunkLoop_unfold) simp
  have rest: "\<forall>j' < j. \<not> int (length buf) \<le> sourceIndex (?s1\<lparr>playbackPosition := playbackPosition ?s1 + real j' * speed ?s1\<rparr>)"
  proof (intro allI impI)
    fix j' assume "j' < j"
    then have "\<not> int (length buf) \<le> sourceIndex (s\<lparr>playbackPosition := playbackPosition s + real (Suc j') * speed s\<rparr>)"
      using Suc.prems(1) [rule_format, of "Suc j'"] by blast
    then show "\<not> int (length buf) \<le> sourceIndex (?s1\<lparr>playbackPosition := playbackPosition ?s1 + real j' * speed ?s1\<rparr>)"
      by (simp add: algebra_simps)
  qed
  have bound: "(i + deviceChannels k) + j * deviceChannels k \<le> 2048 * deviceChannels k"
    using Suc.prems(2) by simp
  from Suc.IH [OF rest bound dc, of ?c1]
  obtain c where c: "length c = length ?c1"
      "\<forall>idx < i + deviceChannels k. idx < length ?c1 \<longrightarrow> c ! idx = ?c1 ! idx"
      "chunkLoop k buf (i + deviceChannels k) ?s1 ?c1 =
       chunkLoop k buf (i + deviceChannels k + j * deviceChannels k)
         (?s1\<lparr>playbackPosition := playbackPosition ?s1 + real j * speed ?s1\<rparr>) c"
    by blast
  have "length c = length chunk" using c(1) by (simp add: length_writeFrame)
  moreover have "\<forall>idx < i. idx < length chunk \<longrightarrow> c ! idx = chunk ! idx"
    using c(2) by (simp add: length_writeFrame writeFrame_before)
  moreover have "chunkLoop k buf i s chunk =
      chunkLoop k buf (i + Suc j * deviceChannels k)
        (s\<lparr>playbackPosition := playbackPosition s + real (Suc j) * speed s\<rparr>) c"
    using step c(3) by (simp add: algebra_simps)
  ultimately show ?case by blast
qed


lemma last_queue_scheduleNextChunk:
  "audioBuffer s = Some buf \<Longrightarrow> isPlaying s \<Longrightarrow>
   last (queue (scheduleNextChunk k s)) =
   snd (chunkLoop k buf 0 s (replicate (2048 * deviceChannels k) 0))"
  by (simp add: scheduleNextChunk_def Let_def case_prod_beta)

lemma rendered_frame:
  assumes "0 < deviceChannels k" "j < 2048"
    and "\<forall>j' \<le> j. \<not> int (length buf) \<le> sourceIndex (s\<lparr>playbackPosition := playbackPosition s + real j' * speed s\<rparr>)"
    and "idx < j * deviceChannels k + deviceChannels k"
  shows "\<exists>c. length c = 2048 * deviceChannels k \<and>
     snd (chunkLoop k buf 0 s (replicate (2048 * deviceChannels k) 0)) ! idx =
     writeFrame k buf (j * deviceChannels k)
       (s\<lparr>playbackPosition := playbackPosition s + real j * speed s\<rparr>) c ! idx"
proof -
  let ?c0 = "replicate (2048 * deviceChannels k) (0::real)"
  let ?sj = "s\<lparr>playbackPosition := playbackPosition s + real j * speed s\<rparr>"
  have before: "\<forall>j' < j. \<not> int (length buf) \<le> sourceIndex (s\<lparr>playbackPosition := playbackPosition s + real j' * speed s\<rparr>)"
    using assms(3) by simp
  have bound: "0 + j * deviceChannels k \<le> 2048 * deviceChannels k"
    using assms(2) by simp
  from chunkLoop_advance [OF before bound assms(1), of ?c0]
  obtain c where c: "length c = length ?c0"
    "chunkLoop k buf 0 s ?c0 = chunkLoop k buf (0 + j * deviceChannels k) ?sj c"
    by blast
  have i: "j * deviceChannels k < 2048 * deviceChannels k"
    using assms(1,2) by simp
  have here: "\<not> int (length buf) \<le> sourceIndex ?sj"
    using assms(3) by simp
  have "Suc j \<le> 2048" using assms(2) by simp
  then have "Suc j * deviceChannels k \<le> 2048 * deviceChannels k"
    by (rule mult_le_mono1)
  then have "j * deviceChannels k + deviceChannels k \<le> 2048 * deviceChannels k"
    by (simp add: add.commute)
  with assms(4) have "idx < 2048 * deviceChannels k"
    by (rule less_le_trans)
  then have idx: "idx < length c" using c(1) by simp
  have "snd (chunkLoop k buf (j * deviceChannels k) ?sj c) ! idx =
        writeFrame k buf (j * deviceChannels k) ?sj c ! idx"
    by (rule chunkLoop_frame [OF i here assms(4) idx])
  then show ?thesis using c by auto
qed

text \<open>The example inputs.\<close>

lemma length_interleave: "length (interleave b) = frameCount b * numberOfChannels b"
  by (simp add: interleave_def length_concat comp_def sum_list_triv)

lemma pausedHandle_fields:
  "paused pausedHandle" "audioBuffer pausedHandle = Some (interleave oneSecondMono)"
  "channels pausedHandle = 1" "sampleRate pausedHandle = 44100"
  "pauseTime pausedHandle = 0" "startTime pausedHandle = 0" "\<not> loop pausedHandle"
  "length (interleave oneSecondMono) = 44100"
  by (simp_all add: pausedHandle_def start_def play_def noOpt_def Let_def length_interleave oneSecondMono_def)

lemma pausedHandle_more:
  "\<not> isPlaying pausedHandle" "speed pausedHandle = 1" "queue pausedHandle = []"
  "onEndTriggered pausedHandle = 0" "seekPos pausedHandle = 0"
  by (simp_all add: pausedHandle_def start_def play_def noOpt_def Let_def)

lemma interleave_oneSecondMono: "interleave oneSecondMono = replicate 44100 (1 / 2)"
proof -
  have "interleave oneSecondMono = map (\<lambda>frame. replicate 44100 (1 / 2) ! frame) [0..<44100]"
    by (simp add: interleave_def oneSecondMono_def concat_map_singleton)
  also have "\<dots> = map (\<lambda>frame. 1 / 2) [0..<44100]"
    by (rule map_cong) simp_all
  also have "\<dots> = replicate 44100 (1 / 2)"
    by (simp add: map_replicate_const)
  finally show ?thesis .
qed

text \<open>
  C9. When a chunk is rendered for a stereo device, the left sample of an output frame
  is the source's left sample times \<open>volume * (1 - max(0, pan))\<close> times the master
  volume, and the right sample is the source's right sample times
  \<open>volume * (1 + min(0, pan))\<close> times the master volume; with \<open>pan = 1\<close> and
  \<open>volume = 1\<close> the left sample is 0 and the right one is the source sample times the
  master volume alone. For a device that is not stereo (a mono device among them) the
  two source samples are averaged. Frame \<open>j\<close> of the chunk is rendered from the cursor
  advanced by \<open>j\<close> strides, as long as the cursor has stayed inside the buffer up to
  that frame.
\<close>

theorem stereo_pan_and_mono_mix:
  assumes "audioBuffer s = Some buf" "isPlaying s" "0 < deviceChannels k" "j < 2048"
    and "\<forall>j' \<le> j. \<not> int (length buf) \<le>
           sourceIndex (s\<lparr>playbackPosition := playbackPosition s + real j' * speed s\<rparr>)"
  shows
    "(deviceChannels k = 2 \<longrightarrow>
        last (queue (scheduleNextChunk k s)) ! (2 * j) =
          leftSample buf (s\<lparr>playbackPosition := playbackPosition s + real j * speed s\<rparr>)
            * (volume s * (1 - max 0 (pan s))) * masterVolume k
      \<and> last (queue (scheduleNextChunk k s)) ! (2 * j + 1) =
          rightSample buf (s\<lparr>playbackPosition := playbackPosition s + real j * speed s\<rparr>)
            * (volume s * (1 + min 0 (pan s))) * masterVolume k)
   \<and> (deviceChannels k = 2 \<and> pan s = 1 \<and> volume s = 1 \<longrightarrow>
        last (queue (scheduleNextChunk k s)) ! (2 * j) = 0
      \<and> last (queue (scheduleNextChunk k s)) ! (2 * j + 1) =
          rightSample buf (s\<lparr>playbackPosition := playbackPosition s + real j * speed s\<rparr>)
            * masterVolume k)
   \<and> (deviceChannels k \<noteq> 2 \<longrightarrow>
        last (queue (scheduleNextChunk k s)) ! (j * deviceChannels k) =
          ((leftSample buf (s\<lparr>playbackPosition := playbackPosition s + real j * speed s\<rparr>)
            + rightSample buf (s\<lparr>playbackPosition := playbackPosition s + real j * speed s\<rparr>)) / 2)
            * volume s * masterVolume k)"
proof -
  let ?sj = "s\<lparr>playbackPosition := playbackPosition s + real j * speed s\<rparr>"
  let ?out = "last (queue (scheduleNextChunk k s))"
  have out: "?out = snd (chunkLoop k buf 0 s (replicate (2048 * deviceChannels k) 0))"
    by (rule last_queue_scheduleNextChunk [OF assms(1,2)])
  have stereo: "?out ! (2 * j) = leftSample buf ?sj * leftGain s * masterVolume k
      \<and> ?out ! (2 * j + 1) = rightSample buf ?sj * rightGain s * masterVolume k"
    if dc: "deviceChannels k = 2"
  proof -
    from rendered_frame [OF assms(3,4,5), of "2 * j"] dc
    obtain c where c: "length c = 4096"
      "?out ! (2 * j) = writeFrame k buf (2 * j) ?sj c ! (2 * j)"
      unfolding out by (auto simp: mult.commute)
    from rendered_frame [OF assms(3,4,5), of "2 * j + 1"] dc
    obtain c' where c': "length c' = 4096"
      "?out ! (2 * j + 1) = writeFrame k buf (2 * j) ?sj c' ! (2 * j + 1)"
      unfolding out by (auto simp: mult.commute)
    have j: "2 * j < 4096" "2 * j + 1 < 4096" using assms(4) by simp_all
    show ?thesis
      using c c' j dc by (simp add: writeFrame_def leftGain_def rightGain_def)
  qed
  have mono: "?out ! (j * deviceChannels k) =
      ((leftSample buf ?sj + rightSample buf ?sj) / 2) * volume s * masterVolume k"
    if dc: "deviceChannels k \<noteq> 2"
  proof -
    from rendered_frame [OF assms(3,4,5), of "j * deviceChannels k"] assms(3)
    obtain c where c: "length c = 2048 * deviceChannels k"
      "?out ! (j * deviceChannels k) =
       writeFrame k buf (j * deviceChannels k) ?sj c ! (j * deviceChannels k)"
      unfolding out by auto
    have "j * deviceChannels k < 2048 * deviceChannels k"
      using assms(3,4) by simp
    then show ?thesis using c dc by (simp add: writeFrame_def)
  qed
  show ?thesis
    using stereo mono by (simp add: leftGain_def rightGain_def)
qed

theorem stereo_pan_and_mono_mix_witness:
  "last (queue (start stereoDevice 0 oneSecondMono (play (noOpt\<lparr>AudioPlayOpt.pan := Some 1\<rparr>)))) ! 0 = 0
   \<and> last (queue (start stereoDevice 0 oneSecondMono (play (noOpt\<lparr>AudioPlayOpt.pan := Some 1\<rparr>)))) ! 1 = 1 / 2
   \<and> last (queue (start monoDevice 0 oneSecondMono (play noOpt))) ! 0 = 1 / 2"
proof -
  let ?buf = "interleave oneSecondMono"
  let ?r = "(play (noOpt\<lparr>AudioPlayOpt.pan := Some 1\<rparr>))\<lparr>sampleRate := 44100, channels := 1,
        audioBuffer := Some ?buf, isPlaying := True, startTime := 0, playbackPosition := 0\<rparr>"
  let ?m = "(play noOpt)\<lparr>sampleRate := 44100, channels := 1,
        audioBuffer := Some ?buf, isPlaying := True, startTime := 0, playbackPosition := 0\<rparr>"
  have sr: "start stereoDevice 0 oneSecondMono (play (noOpt\<lparr>AudioPlayOpt.pan := Some 1\<rparr>))
      = scheduleNextChunk stereoDevice ?r"
    by (simp add: start_def startPlayback_def Let_def play_def noOpt_def oneSecondMono_def)
  have sm: "start monoDevice 0 oneSecondMono (play noOpt) = scheduleNextChunk monoDevice ?m"
    by (simp add: start_def startPlayback_def Let_def play_def noOpt_def oneSecondMono_def)
  have inr: "\<forall>j'\<le>0. \<not> int (length ?buf) \<le>
      sourceIndex (?r\<lparr>playbackPosition := playbackPosition ?r + real j' * speed ?r\<rparr>)"
    by (simp add: sourceIndex_def pausedHandle_fields(8))
  have inm: "\<forall>j'\<le>0. \<not> int (length ?buf) \<le>
      sourceIndex (?m\<lparr>playbackPosition := playbackPosition ?m + real j' * speed ?m\<rparr>)"
    by (simp add: sourceIndex_def pausedHandle_fields(8))
  have sample: "leftSample ?buf (?r\<lparr>playbackPosition := 0\<rparr>) = 1 / 2"
    "rightSample ?buf (?r\<lparr>playbackPosition := 0\<rparr>) = 1 / 2"
    "leftSample ?buf (?m\<lparr>playbackPosition := 0\<rparr>) = 1 / 2"
    "rightSample ?buf (?m\<lparr>playbackPosition := 0\<rparr>) = 1 / 2"
    by (simp_all add: leftSample_def rightSample_def sampleAt_def sourceIndex_def
        interleave_oneSecondMono)
  have dev: "0 < deviceChannels stereoDevice" "deviceChannels stereoDevice = 2"
    "masterVolume stereoDevice = 1" "0 < deviceChannels monoDevice"
    "deviceChannels monoDevice = 1" "masterVolume monoDevice = 1"
    by (simp_all add: stereoDevice_def monoDevice_def)
  have z: "(0::nat) < 2048" by simp
  from stereo_pan_and_mono_mix [of ?r ?buf stereoDevice 0, OF _ _ dev(1) z inr]
  have "last (queue (scheduleNextChunk stereoDevice ?r)) ! 0 = 0
      \<and> last (queue (scheduleNextChunk stereoDevice ?r)) ! 1 = 1 / 2"
    using sample(1,2) by (simp add: dev play_def noOpt_def)
  moreover
  from stereo_pan_and_mono_mix [of ?m ?buf monoDevice 0, OF _ _ dev(4) z inm]
  have "last (queue (scheduleNextChunk monoDevice ?m)) ! 0 = 1 / 2"
    using sample(3,4) by (simp add: dev play_def noOpt_def)
  ultimately show ?thesis
    unfolding sr sm by simp
qed

section \<open>Playback to the end of the buffer\<close>

text \<open>
  With stride 1 the cursor passes the end of an interleaved buffer after a fixed number
  \<open>r\<close> of frames, and at no frame before.
\<close>

lemma frames_left:
  assumes "channels s dvd length buf"
  shows "\<exists>r. \<forall>j::nat. (int (length buf) \<le> sourceIndex (s\<lparr>playbackPosition := playbackPosition s + real j\<rparr>)) = (r \<le> j)"
proof (cases "channels s = 0")
  case True
  then have "length buf = 0" using assms by simp
  then have "\<forall>j::nat. (int (length buf) \<le> sourceIndex (s\<lparr>playbackPosition := playbackPosition s + real j\<rparr>)) = (0 \<le> j)"
    using True by (simp add: sourceIndex_def)
  then show ?thesis by blast
next
  case False
  from assms obtain F where F: "length buf = channels s * F" by (auto simp: dvd_def)
  have "(int (length buf) \<le> sourceIndex (s\<lparr>playbackPosition := playbackPosition s + real j\<rparr>))
        = (nat (int F - \<lfloor>playbackPosition s\<rfloor>) \<le> j)" for j :: nat
  proof -
    have fl: "\<lfloor>playbackPosition s + real j\<rfloor> = \<lfloor>playbackPosition s\<rfloor> + int j"
      by (metis floor_add_int of_int_of_nat_eq)
    have "(int (length buf) \<le> sourceIndex (s\<lparr>playbackPosition := playbackPosition s + real j\<rparr>))
        = (int (channels s) * int F \<le> int (channels s) * (\<lfloor>playbackPosition s\<rfloor> + int j))"
      by (simp add: sourceIndex_def F fl mult.commute)
    also have "\<dots> = (int F \<le> \<lfloor>playbackPosition s\<rfloor> + int j)"
      using False by simp
    also have "\<dots> = (nat (int F - \<lfloor>playbackPosition s\<rfloor>) \<le> j)"
      by linarith
    finally show ?thesis .
  qed
  then show ?thesis by blast
qed

lemma chunk_full:
  assumes "\<not> loop s" "speed s = 1" "0 < deviceChannels k"
    and "\<forall>j::nat. (int (length buf) \<le> sourceIndex (s\<lparr>playbackPosition := playbackPosition s + real j\<rparr>)) = (r \<le> j)"
    and "2048 \<le> r"
  shows "\<exists>c. length c = length chunk \<and>
     chunkLoop k buf 0 s chunk = (s\<lparr>playbackPosition := playbackPosition s + 2048\<rparr>, c)"
proof -
  have inside: "\<forall>j' < 2048. \<not> int (length buf) \<le> sourceIndex (s\<lparr>playbackPosition := playbackPosition s + real j' * speed s\<rparr>)"
    using assms(4,5) by (simp add: assms(2))
  have bound: "0 + 2048 * deviceChannels k \<le> 2048 * deviceChannels k" by simp
  from chunkLoop_advance [OF inside bound assms(3), of chunk]
  obtain c where c: "length c = length chunk"
    "chunkLoop k buf 0 s chunk = chunkLoop k buf (0 + 2048 * deviceChannels k)
       (s\<lparr>playbackPosition := playbackPosition s + real 2048 * speed s\<rparr>) c"
    by blast
  have "chunkLoop k buf (0 + 2048 * deviceChannels k)
       (s\<lparr>playbackPosition := playbackPosition s + real 2048 * speed s\<rparr>) c
     = (s\<lparr>playbackPosition := playbackPosition s + 2048\<rparr>, c)"
    by (subst chunkLoop_unfold) (simp add: assms(2))
  with c show ?thesis by auto
qed

lemma chunk_end:
  assumes "\<not> loop s" "speed s = 1" "0 < deviceChannels k"
    and "\<forall>j::nat. (int (length buf) \<le> sourceIndex (s\<lparr>playbackPosition := playbackPosition s + real j\<rparr>)) = (r \<le> j)"
    and "r < 2048"
  shows "\<exists>c. length c = length chunk \<and>
     chunkLoop k buf 0 s chunk =
       (s\<lparr>playbackPosition := playbackPosition s + real r, isPlaying := False,
           onEndTriggered := Suc (onEndTriggered s)\<rparr>,
        fillSilence (r * deviceChannels k) (2048 * deviceChannels k) c)"
proof -
  let ?sr = "s\<lparr>playbackPosition := playbackPosition s + real r * speed s\<rparr>"
  have inside: "\<forall>j' < r. \<not> int (length buf) \<le> sourceIndex (s\<lparr>playbackPosition := playbackPosition s + real j' * speed s\<rparr>)"
    using assms(4) by (simp add: assms(2))
  have bound: "0 + r * deviceChannels k \<le> 2048 * deviceChannels k"
    using assms(5) by simp
  from chunkLoop_advance [OF inside bound assms(3), of chunk]
  obtain c where c: "length c = length chunk"
    "chunkLoop k buf 0 s chunk = chunkLoop k buf (0 + r * deviceChannels k) ?sr c"
    by blast
  have i: "r * deviceChannels k < 2048 * deviceChannels k"
    using assms(3,5) by simp
  have past: "int (length buf) \<le> sourceIndex ?sr"
    using assms(4) by (simp add: assms(2))
  have "chunkLoop k buf (0 + r * deviceChannels k) ?sr c
     = (s\<lparr>playbackPosition := playbackPosition s + real r, isPlaying := False,
           onEndTriggered := Suc (onEndTriggered s)\<rparr>,
        fillSilence (r * deviceChannels k) (2048 * deviceChannels k) c)"
    using i past assms(1) by (subst chunkLoop_unfold) (simp add: assms(2))
  with c show ?thesis by auto
qed

lemma scheduleNextChunk_full:
  assumes "audioBuffer s = Some buf" "isPlaying s" "\<not> loop s" "speed s = 1" "0 < deviceChannels k"
    and "\<forall>j::nat. (int (length buf) \<le> sourceIndex (s\<lparr>playbackPosition := playbackPosition s + real j\<rparr>)) = (r \<le> j)"
    and "2048 \<le> r"
  shows "\<exists>c. length c = 2048 * deviceChannels k \<and>
     scheduleNextChunk k s =
       s\<lparr>playbackPosition := playbackPosition s + 2048,
         queue := queue s @ [c],
         playbackId := Some (nextTimer s),
         timers := (timers s)(nextTimer s \<mapsto>
           real (2048 * deviceChannels k) / real (deviceChannels k) / deviceFrequency k * 1000 * 0.5),
         nextTimer := Suc (nextTimer s)\<rparr>"
proof -
  from chunk_full [OF assms(3,4,5,6,7), of "replicate (2048 * deviceChannels k) 0"]
  obtain c where c: "length c = 2048 * deviceChannels k"
    "chunkLoop k buf 0 s (replicate (2048 * deviceChannels k) 0)
      = (s\<lparr>playbackPosition := playbackPosition s + 2048\<rparr>, c)"
    by auto
  show ?thesis
    using c(1) by (intro exI [of _ c]) (simp add: scheduleNextChunk_def assms(1,2) c(2) Let_def)
qed

lemma scheduleNextChunk_end:
  assumes "audioBuffer s = Some buf" "isPlaying s" "\<not> loop s" "speed s = 1" "0 < deviceChannels k"
    and "\<forall>j::nat. (int (length buf) \<le> sourceIndex (s\<lparr>playbackPosition := playbackPosition s + real j\<rparr>)) = (r \<le> j)"
    and "r < 2048"
  shows "\<exists>c. length c = 2048 * deviceChannels k
     \<and> (\<forall>idx. r * deviceChannels k \<le> idx \<and> idx < 2048 * deviceChannels k \<longrightarrow> c ! idx = 0)
     \<and> scheduleNextChunk k s =
       s\<lparr>playbackPosition := playbackPosition s + real r,
         isPlaying := False,
         onEndTriggered := Suc (onEndTriggered s),
         queue := queue s @ [c],
         playbackId := Some (nextTimer s),
         timers := (timers s)(nextTimer s \<mapsto>
           real (2048 * deviceChannels k) / real (deviceChannels k) / deviceFrequency k * 1000 * 0.5),
         nextTimer := Suc (nextTimer s)\<rparr>"
proof -
  from chunk_end [OF assms(3,4,5,6,7), of "replicate (2048 * deviceChannels k) 0"]
  obtain c where c: "length c = 2048 * deviceChannels k"
    "chunkLoop k buf 0 s (replicate (2048 * deviceChannels k) 0)
      = (s\<lparr>playbackPosition := playbackPosition s + real r, isPlaying := False,
           onEndTriggered := Suc (onEndTriggered s)\<rparr>,
         fillSilence (r * deviceChannels k) (2048 * deviceChannels k) c)"
    by auto
  let ?c = "fillSilence (r * deviceChannels k) (2048 * deviceChannels k) c"
  have "length ?c = 2048 * deviceChannels k" by (simp add: length_fillSilence c(1))
  moreover have "\<forall>idx. r * deviceChannels k \<le> idx \<and> idx < 2048 * deviceChannels k \<longrightarrow> ?c ! idx = 0"
    by (simp add: nth_fillSilence c(1))
  ultimately show ?thesis
    by (intro exI [of _ ?c]) (simp add: scheduleNextChunk_def assms(1,2) c(2) Let_def)
qed

lemma timerFiresTimes_Suc:
  "timerFiresTimes k (Suc n) s = timerFiresTimes k n (timerFires k s)"
  by (simp add: timerFiresTimes_def funpow_swap1)

lemma timerFires_ended:
  "\<not> isPlaying e \<Longrightarrow> \<exists>tm. timerFires k e = e\<lparr>timers := tm\<rparr>"
proof (cases "playbackId e")
  case None
  then have "timerFires k e = e\<lparr>timers := timers e\<rparr>" by (simp add: timerFires_def)
  then show ?thesis by blast
next
  case (Some t)
  assume "\<not> isPlaying e"
  then have "timerFires k e = e\<lparr>timers := (if timers e t = None then timers e else (timers e)(t := None))\<rparr>"
    using Some by (simp add: timerFires_def scheduleNextChunk_def split: option.splits)
  then show ?thesis by blast
qed

lemma timerFiresTimes_ended:
  "\<not> isPlaying e \<Longrightarrow> \<exists>tm. timerFiresTimes k n e = e\<lparr>timers := tm\<rparr>"
proof (induction n arbitrary: e)
  case 0
  have "timerFiresTimes k 0 e = e\<lparr>timers := timers e\<rparr>" by (simp add: timerFiresTimes_def)
  then show ?case by blast
next
  case (Suc n)
  from timerFires_ended [OF Suc.prems, of k]
  obtain tm where tm: "timerFires k e = e\<lparr>timers := tm\<rparr>" by blast
  have "\<not> isPlaying (e\<lparr>timers := tm\<rparr>)" using Suc.prems by simp
  from Suc.IH [OF this]
  obtain tm' where "timerFiresTimes k n (e\<lparr>timers := tm\<rparr>) = e\<lparr>timers := tm, timers := tm'\<rparr>"
    by blast
  then have "timerFiresTimes k (Suc n) e = e\<lparr>timers := tm'\<rparr>"
    by (simp add: timerFiresTimes_Suc tm)
  then show ?case by blast
qed

lemma playback_runs_out:
  assumes "audioBuffer s = Some buf" "isPlaying s" "\<not> loop s" "speed s = 1" "0 < deviceChannels k"
    and "\<forall>j::nat. (int (length buf) \<le> sourceIndex (s\<lparr>playbackPosition := playbackPosition s + real j\<rparr>)) = (r \<le> j)"
  shows "\<exists>N. (\<forall>n<N. onEndTriggered (timerFiresTimes k n (scheduleNextChunk k s)) = onEndTriggered s)
     \<and> (\<forall>n\<ge>N. \<exists>new.
          onEndTriggered (timerFiresTimes k n (scheduleNextChunk k s)) = Suc (onEndTriggered s)
        \<and> \<not> isPlaying (timerFiresTimes k n (scheduleNextChunk k s))
        \<and> playbackPosition (timerFiresTimes k n (scheduleNextChunk k s)) = playbackPosition s + real r
        \<and> channels (timerFiresTimes k n (scheduleNextChunk k s)) = channels s
        \<and> queue (timerFiresTimes k n (scheduleNextChunk k s)) = queue s @ new
        \<and> (\<forall>idx. r * deviceChannels k \<le> idx \<and> idx < length (concat new) \<longrightarrow> concat new ! idx = 0))"
  using assms
proof (induction r arbitrary: s rule: less_induct)
  case (less r)
  note buf = less.prems(1) and playing = less.prems(2) and noloop = less.prems(3)
    and speed1 = less.prems(4) and dc = less.prems(5) and left = less.prems(6)
  show ?case
  proof (cases "r < 2048")
    case True
    from scheduleNextChunk_end [OF buf playing noloop speed1 dc left True]
    obtain c where c: "length c = 2048 * deviceChannels k"
      "\<forall>idx. r * deviceChannels k \<le> idx \<and> idx < 2048 * deviceChannels k \<longrightarrow> c ! idx = 0"
      and e: "scheduleNextChunk k s =
       s\<lparr>playbackPosition := playbackPosition s + real r,
         isPlaying := False,
         onEndTriggered := Suc (onEndTriggered s),
         queue := queue s @ [c],
         playbackId := Some (nextTimer s),
         timers := (timers s)(nextTimer s \<mapsto>
           real (2048 * deviceChannels k) / real (deviceChannels k) / deviceFrequency k * 1000 * 0.5),
         nextTimer := Suc (nextTimer s)\<rparr>" (is "_ = ?e")
      by blast
    have ended: "\<not> isPlaying ?e" by simp
    have "\<exists>new.
          onEndTriggered (timerFiresTimes k n (scheduleNextChunk k s)) = Suc (onEndTriggered s)
        \<and> \<not> isPlaying (timerFiresTimes k n (scheduleNextChunk k s))
        \<and> playbackPosition (timerFiresTimes k n (scheduleNextChunk k s)) = playbackPosition s + real r
        \<and> channels (timerFiresTimes k n (scheduleNextChunk k s)) = channels s
        \<and> queue (timerFiresTimes k n (scheduleNextChunk k s)) = queue s @ new
        \<and> (\<forall>idx. r * deviceChannels k \<le> idx \<and> idx < length (concat new) \<longrightarrow> concat new ! idx = 0)" for n
    proof -
      from timerFiresTimes_ended [OF ended, of k n]
      obtain tm where "timerFiresTimes k n ?e = ?e\<lparr>timers := tm\<rparr>" by blast
      then show ?thesis
        using c unfolding e by (intro exI [of _ "[c]"]) simp
    qed
    then show ?thesis by (intro exI [of _ 0]) simp
  next
    case False
    then have big: "2048 \<le> r" by simp
    from scheduleNextChunk_full [OF buf playing noloop speed1 dc left big]
    obtain c where c: "length c = 2048 * deviceChannels k"
      and s1: "scheduleNextChunk k s =
       s\<lparr>playbackPosition := playbackPosition s + 2048,
         queue := queue s @ [c],
         playbackId := Some (nextTimer s),
         timers := (timers s)(nextTimer s \<mapsto>
           real (2048 * deviceChannels k) / real (deviceChannels k) / deviceFrequency k * 1000 * 0.5),
         nextTimer := Suc (nextTimer s)\<rparr>" (is "_ = ?s1")
      by blast
    let ?s1' = "?s1\<lparr>timers := (timers ?s1)(nextTimer s := None)\<rparr>"
    have fires: "timerFires k ?s1 = scheduleNextChunk k ?s1'"
      by (simp add: timerFires_def)
    have left': "\<forall>j::nat. (int (length buf) \<le>
          sourceIndex (?s1'\<lparr>playbackPosition := playbackPosition ?s1' + real j\<rparr>)) = (r - 2048 \<le> j)"
    proof
      fix j :: nat
      have "sourceIndex (?s1'\<lparr>playbackPosition := playbackPosition ?s1' + real j\<rparr>)
          = sourceIndex (s\<lparr>playbackPosition := playbackPosition s + real (2048 + j)\<rparr>)"
        by (simp add: sourceIndex_def add.assoc)
      then show "(int (length buf) \<le>
          sourceIndex (?s1'\<lparr>playbackPosition := playbackPosition ?s1' + real j\<rparr>)) = (r - 2048 \<le> j)"
        using left [rule_format, of "2048 + j"] big by (simp only:) linarith
    qed
    have less': "r - 2048 < r" using big by simp
    from less.IH [OF less', of ?s1', OF _ _ _ _ dc left']
    obtain N where before: "\<forall>n<N. onEndTriggered (timerFiresTimes k n (scheduleNextChunk k ?s1')) = onEndTriggered ?s1'"
      and after: "\<forall>n\<ge>N. \<exists>new.
          onEndTriggered (timerFiresTimes k n (scheduleNextChunk k ?s1')) = Suc (onEndTriggered ?s1')
        \<and> \<not> isPlaying (timerFiresTimes k n (scheduleNextChunk k ?s1'))
        \<and> playbackPosition (timerFiresTimes k n (scheduleNextChunk k ?s1')) = playbackPosition ?s1' + real (r - 2048)
        \<and> channels (timerFiresTimes k n (scheduleNextChunk k ?s1')) = channels ?s1'
        \<and> queue (timerFiresTimes k n (scheduleNextChunk k ?s1')) = queue ?s1' @ new
        \<and> (\<forall>idx. (r - 2048) * deviceChannels k \<le> idx \<and> idx < length (concat new) \<longrightarrow> concat new ! idx = 0)"
      using buf playing noloop speed1 by auto
    have step: "timerFiresTimes k (Suc m) (scheduleNextChunk k s)
        = timerFiresTimes k m (scheduleNextChunk k ?s1')" for m
      by (simp only: timerFiresTimes_Suc s1 fires)
    have "onEndTriggered (timerFiresTimes k n (scheduleNextChunk k s)) = onEndTriggered s"
      if "n < Suc N" for n
    proof (cases n)
      case 0
      then show ?thesis by (simp add: timerFiresTimes_def s1)
    next
      case (Suc m)
      then have "m < N" using that by simp
      with before have "onEndTriggered (timerFiresTimes k m (scheduleNextChunk k ?s1')) = onEndTriggered ?s1'"
        by blast
      then show ?thesis unfolding Suc step by simp
    qed
    moreover have "\<exists>new.
          onEndTriggered (timerFiresTimes k n (scheduleNextChunk k s)) = Suc (onEndTriggered s)
        \<and> \<not> isPlaying (timerFiresTimes k n (scheduleNextChunk k s))
        \<and> playbackPosition (timerFiresTimes k n (scheduleNextChunk k s)) = playbackPosition s + real r
        \<and> channels (timerFiresTimes k n (scheduleNextChunk k s)) = channels s
        \<and> queue (timerFiresTimes k n (scheduleNextChunk k s)) = queue s @ new
        \<and> (\<forall>idx. r * deviceChannels k \<le> idx \<and> idx < length (concat new) \<longrightarrow> concat new ! idx = 0)"
      if "Suc N \<le> n" for n
    proof -
      from that obtain m where n: "n = Suc m" and m: "N \<le> m" by (cases n) auto
      from after m obtain new where new:
        "onEndTriggered (timerFiresTimes k m (scheduleNextChunk k ?s1')) = Suc (onEndTriggered ?s1')"
        "\<not> isPlaying (timerFiresTimes k m (scheduleNextChunk k ?s1'))"
        "playbackPosition (timerFiresTimes k m (scheduleNextChunk k ?s1')) = playbackPosition ?s1' + real (r - 2048)"
        "channels (timerFiresTimes k m (scheduleNextChunk k ?s1')) = channels ?s1'"
        "queue (timerFiresTimes k m (scheduleNextChunk k ?s1')) = queue ?s1' @ new"
        "\<forall>idx. (r - 2048) * deviceChannels k \<le> idx \<and> idx < length (concat new) \<longrightarrow> concat new ! idx = 0"
        by blast
      have zero: "concat (c # new) ! idx = 0"
        if idx: "r * deviceChannels k \<le> idx" "idx < length (concat (c # new))" for idx
      proof -
        have "2048 * deviceChannels k \<le> r * deviceChannels k"
          using big by (rule mult_le_mono1)
        then have ge: "length c \<le> idx" using idx(1) c by linarith
        have "(r - 2048) * deviceChannels k = r * deviceChannels k - 2048 * deviceChannels k"
          by (simp add: diff_mult_distrib)
        then have "(r - 2048) * deviceChannels k \<le> idx - length c"
          using idx(1) c by linarith
        moreover have "idx - length c < length (concat new)"
          using idx(2) ge by simp
        ultimately have "concat new ! (idx - length c) = 0" using new(6) by blast
        then show ?thesis using ge by (simp add: nth_append)
      qed
      have pos: "playbackPosition ?s1' + real (r - 2048) = playbackPosition s + real r"
        using big by simp
      show ?thesis
        unfolding n step
        using new(1,2,4,5) zero new(3) [unfolded pos]
        by (intro exI [of _ "c # new"]) simp
    qed
    ultimately show ?thesis by blast
  qed
qed

text \<open>
  C5. A sound handle with \<open>loop = false\<close> and \<open>speed = 1\<close> over a decoded buffer
  starts playing and its render timer keeps firing, with no other call on the handle.
  There is a number \<open>N\<close> of timer firings before which the end notification has not
  fired, and from which on it has fired exactly once, for good. The cursor then stands
  \<open>r\<close> frames after its start, past the end of the buffer, and every sample delivered
  after the first \<open>r\<close> frames is zero: the rest of the chunk in which the cursor ran
  out, and anything after it.
\<close>

theorem end_fires_once_then_silence:
  assumes "audioBuffer s = Some buf" "channels s dvd length buf" "\<not> isPlaying s"
    and "\<not> loop s" "speed s = 1" "0 < deviceChannels k"
  shows "\<exists>N r.
      (\<forall>n<N. onEndTriggered (timerFiresTimes k n (startPlayback k now s)) = onEndTriggered s)
    \<and> (\<forall>n\<ge>N.
          onEndTriggered (timerFiresTimes k n (startPlayback k now s)) = Suc (onEndTriggered s)
        \<and> \<not> isPlaying (timerFiresTimes k n (startPlayback k now s))
        \<and> playbackPosition (timerFiresTimes k n (startPlayback k now s))
            = seekPos s * sampleRate s + real r
        \<and> int (length buf) \<le> sourceIndex (timerFiresTimes k n (startPlayback k now s))
        \<and> take (length (queue s)) (queue (timerFiresTimes k n (startPlayback k now s))) = queue s
        \<and> (\<forall>idx. r * deviceChannels k \<le> idx
                 \<and> idx < length (deliveredSince s (timerFiresTimes k n (startPlayback k now s)))
              \<longrightarrow> deliveredSince s (timerFiresTimes k n (startPlayback k now s)) ! idx = 0))"
proof -
  let ?s0 = "s\<lparr>isPlaying := True, startTime := now, playbackPosition := seekPos s * sampleRate s\<rparr>"
  have sp: "startPlayback k now s = scheduleNextChunk k ?s0"
    using assms(1,3) by (simp add: startPlayback_def)
  have "channels ?s0 dvd length buf" using assms(2) by simp
  from frames_left [OF this]
  obtain r where left: "\<forall>j::nat. (int (length buf) \<le>
      sourceIndex (?s0\<lparr>playbackPosition := playbackPosition ?s0 + real j\<rparr>)) = (r \<le> j)"
    by blast
  from playback_runs_out [of ?s0 buf k r, OF _ _ _ _ assms(6) left]
  obtain N where before:
      "\<forall>n<N. onEndTriggered (timerFiresTimes k n (scheduleNextChunk k ?s0)) = onEndTriggered ?s0"
    and after: "\<forall>n\<ge>N. \<exists>new.
          onEndTriggered (timerFiresTimes k n (scheduleNextChunk k ?s0)) = Suc (onEndTriggered ?s0)
        \<and> \<not> isPlaying (timerFiresTimes k n (scheduleNextChunk k ?s0))
        \<and> playbackPosition (timerFiresTimes k n (scheduleNextChunk k ?s0)) = playbackPosition ?s0 + real r
        \<and> channels (timerFiresTimes k n (scheduleNextChunk k ?s0)) = channels ?s0
        \<and> queue (timerFiresTimes k n (scheduleNextChunk k ?s0)) = queue ?s0 @ new
        \<and> (\<forall>idx. r * deviceChannels k \<le> idx \<and> idx < length (concat new) \<longrightarrow> concat new ! idx = 0)"
    using assms(1,4,5) by auto
  have past: "int (length buf) \<le> sourceIndex (s\<lparr>playbackPosition := seekPos s * sampleRate s + real r\<rparr>)"
    using left [rule_format, of r] by (simp add: sourceIndex_def)
  have "onEndTriggered (timerFiresTimes k n (startPlayback k now s)) = Suc (onEndTriggered s)
        \<and> \<not> isPlaying (timerFiresTimes k n (startPlayback k now s))
        \<and> playbackPosition (timerFiresTimes k n (startPlayback k now s))
            = seekPos s * sampleRate s + real r
        \<and> int (length buf) \<le> sourceIndex (timerFiresTimes k n (startPlayback k now s))
        \<and> take (length (queue s)) (queue (timerFiresTimes k n (startPlayback k now s))) = queue s
        \<and> (\<forall>idx. r * deviceChannels k \<le> idx
                 \<and> idx < length (deliveredSince s (timerFiresTimes k n (startPlayback k now s)))
              \<longrightarrow> deliveredSince s (timerFiresTimes k n (startPlayback k now s)) ! idx = 0)"
    if "N \<le> n" for n
  proof -
    let ?sn = "timerFiresTimes k n (scheduleNextChunk k ?s0)"
    from after that obtain new where new:
      "onEndTriggered ?sn = Suc (onEndTriggered ?s0)" "\<not> isPlaying ?sn"
      "playbackPosition ?sn = playbackPosition ?s0 + real r"
      "channels ?sn = channels ?s0" "queue ?sn = queue ?s0 @ new"
      "\<forall>idx. r * deviceChannels k \<le> idx \<and> idx < length (concat new) \<longrightarrow> concat new ! idx = 0"
      by blast
    have si: "sourceIndex ?sn = sourceIndex (s\<lparr>playbackPosition := seekPos s * sampleRate s + real r\<rparr>)"
      using new(3,4) by (simp add: sourceIndex_def)
    have ds: "deliveredSince s ?sn = concat new"
      using new(5) by (simp add: deliveredSince_def)
    show ?thesis
      unfolding sp ds si using new past by simp
  qed
  moreover have "\<forall>n<N. onEndTriggered (timerFiresTimes k n (startPlayback k now s)) = onEndTriggered s"
    using before unfolding sp by simp
  ultimately show ?thesis by blast
qed

theorem end_fires_once_then_silence_witness:
  "\<exists>N r.
      (\<forall>n<N. onEndTriggered (timerFiresTimes stereoDevice n (startPlayback stereoDevice 0 pausedHandle)) = 0)
    \<and> (\<forall>n\<ge>N.
          onEndTriggered (timerFiresTimes stereoDevice n (startPlayback stereoDevice 0 pausedHandle)) = 1
        \<and> \<not> isPlaying (timerFiresTimes stereoDevice n (startPlayback stereoDevice 0 pausedHandle))
        \<and> playbackPosition (timerFiresTimes stereoDevice n (startPlayback stereoDevice 0 pausedHandle))
            = real r
        \<and> (\<forall>idx. r * 2 \<le> idx
                 \<and> idx < length (deliveredSince pausedHandle
                     (timerFiresTimes stereoDevice n (startPlayback stereoDevice 0 pausedHandle)))
              \<longrightarrow> deliveredSince pausedHandle
                     (timerFiresTimes stereoDevice n (startPlayback stereoDevice 0 pausedHandle)) ! idx = 0))"
proof -
  have dev: "0 < deviceChannels stereoDevice" "deviceChannels stereoDevice = 2"
    by (simp_all add: stereoDevice_def)
  have dvd: "channels pausedHandle dvd length (interleave oneSecondMono)"
    by (simp add: pausedHandle_fields)
  from end_fires_once_then_silence [OF pausedHandle_fields(2) dvd pausedHandle_more(1)
      pausedHandle_fields(7) pausedHandle_more(2) dev(1), of 0]
  show ?thesis
    by (simp add: pausedHandle_more dev(2)) blast
qed

section \<open>Pausing, seeking, volume\<close>

lemma frames_left_from_zero:
  assumes "audioBuffer s = Some (interleave oneSecondMono)" "channels s = 1" "playbackPosition s = 0"
  shows "\<forall>j::nat. (int (length (interleave oneSecondMono)) \<le>
      sourceIndex (s\<lparr>playbackPosition := playbackPosition s + real j\<rparr>)) = (44100 \<le> j)"
  by (simp add: sourceIndex_def assms pausedHandle_fields(8))

lemma playingHandle_eq:
  "\<exists>c. playingHandle =
     (play noOpt)\<lparr>sampleRate := 44100, channels := 1,
        audioBuffer := Some (interleave oneSecondMono),
        isPlaying := True, startTime := 0,
        playbackPosition := 2048, queue := [c],
        playbackId := Some 0, timers := [0 \<mapsto> 64 / 3], nextTimer := 1\<rparr>"
proof -
  let ?s0 = "(play noOpt)\<lparr>sampleRate := 44100, channels := 1,
        audioBuffer := Some (interleave oneSecondMono),
        isPlaying := True, startTime := 0, playbackPosition := 0\<rparr>"
  have start: "playingHandle = scheduleNextChunk stereoDevice ?s0"
    by (simp add: playingHandle_def start_def startPlayback_def Let_def play_def noOpt_def
        oneSecondMono_def)
  have left: "\<forall>j::nat. (int (length (interleave oneSecondMono)) \<le>
      sourceIndex (?s0\<lparr>playbackPosition := playbackPosition ?s0 + real j\<rparr>)) = (44100 \<le> j)"
    by (rule frames_left_from_zero) simp_all
  from scheduleNextChunk_full [of ?s0 "interleave oneSecondMono" stereoDevice 44100, OF _ _ _ _ _ left]
  obtain c where "scheduleNextChunk stereoDevice ?s0 =
       ?s0\<lparr>playbackPosition := playbackPosition ?s0 + 2048,
         queue := queue ?s0 @ [c],
         playbackId := Some (nextTimer ?s0),
         timers := (timers ?s0)(nextTimer ?s0 \<mapsto>
           real (2048 * deviceChannels stereoDevice) / real (deviceChannels stereoDevice)
             / deviceFrequency stereoDevice * 1000 * 0.5),
         nextTimer := Suc (nextTimer ?s0)\<rparr>"
    by (auto simp: play_def noOpt_def stereoDevice_def)
  then show ?thesis
    unfolding start by (intro exI [of _ c]) (simp add: play_def noOpt_def stereoDevice_def)
qed

text \<open>
  Resuming a sound handle goes through \<open>startPlayback\<close>, which sets the cursor to
  \<open>seekPos * sampleRate\<close> before it renders.
\<close>

lemma resume_resets_cursor:
  assumes "audioBuffer s \<noteq> None" "\<not> paused s"
  shows "set_paused k t2 False (set_paused k t1 True s) =
    scheduleNextChunk k
      ((stopPlayback s)\<lparr>pauseTime := t1, paused := False, isPlaying := True, startTime := t2,
          playbackPosition := seekPos s * sampleRate s\<rparr>)"
proof -
  have sp: "audioBuffer (stopPlayback x) = audioBuffer x" "\<not> isPlaying (stopPlayback x)"
    "seekPos (stopPlayback x) = seekPos x" "sampleRate (stopPlayback x) = sampleRate x"
    "paused (stopPlayback x) = paused x" for x
    by (simp_all add: stopPlayback_def split: option.splits)
  have eq: "stopPlayback (s\<lparr>paused := True\<rparr>) = (stopPlayback s)\<lparr>paused := True\<rparr>"
    by (simp add: stopPlayback_def split: option.splits)
  show ?thesis
    using assms by (auto simp: set_paused_def startPlayback_def sp eq)
qed

text \<open>
  The music handle resumes through its inner \<open>play\<close>, which renders from the cursor
  as pausing left it.
\<close>

lemma music_resume_keeps_cursor:
  assumes "\<not> isPaused m"
  shows "music_set_paused k True m = Some (music_stopPlayback (m\<lparr>isPaused := True\<rparr>))"
    and "Music.playbackPosition (music_stopPlayback (m\<lparr>isPaused := True\<rparr>))
          = Music.playbackPosition m"
    and "isLoaded m \<Longrightarrow>
         music_set_paused k False (music_stopPlayback (m\<lparr>isPaused := True\<rparr>))
          = music_scheduleNextChunk k
              ((music_stopPlayback (m\<lparr>isPaused := True\<rparr>))
                 \<lparr>isPaused := False, Music.isPlaying := True\<rparr>)"
  using assms
  by (simp_all add: music_set_paused_def music_stopPlayback_def music_play_def
      split: option.splits)

text \<open>
  C2. Setting \<open>paused\<close> to true and later back to false is claimed to resume rendering
  at the sample position the cursor held when pausing. On the sound handle of the
  example, paused after its first chunk, the cursor stands at frame 2048 and the render
  timer is cancelled; resuming schedules rendering again, but from frame 0: the chunk
  rendered on resume leaves the cursor at 2048 once more, not at 4096.
\<close>

theorem resume_restarts_from_seek_position:
  "playbackPosition (set_paused stereoDevice 10 True playingHandle) = 2048
   \<and> playbackId (set_paused stereoDevice 10 True playingHandle) = None
   \<and> timers (set_paused stereoDevice 10 True playingHandle) 0 = None
   \<and> set_paused stereoDevice 20 False (set_paused stereoDevice 10 True playingHandle)
       = scheduleNextChunk stereoDevice
           ((set_paused stereoDevice 10 True playingHandle)
              \<lparr>paused := False, isPlaying := True, startTime := 20, playbackPosition := 0\<rparr>)
   \<and> playbackPosition
         (set_paused stereoDevice 20 False (set_paused stereoDevice 10 True playingHandle)) = 2048"
proof -
  from playingHandle_eq obtain c where ph: "playingHandle =
     (play noOpt)\<lparr>sampleRate := 44100, channels := 1,
        audioBuffer := Some (interleave oneSecondMono),
        isPlaying := True, startTime := 0,
        playbackPosition := 2048, queue := [c],
        playbackId := Some 0, timers := [0 \<mapsto> 64 / 3], nextTimer := 1\<rparr>"
    by blast
  let ?p = "set_paused stereoDevice 10 True playingHandle"
  have p: "?p = (play noOpt)\<lparr>paused := True, sampleRate := 44100, channels := 1,
        audioBuffer := Some (interleave oneSecondMono),
        isPlaying := False, startTime := 0, pauseTime := 10,
        playbackPosition := 2048, queue := [],
        playbackId := None, timers := Map.empty, nextTimer := 1\<rparr>"
    unfolding ph by (simp add: set_paused_def stopPlayback_def play_def noOpt_def)
  let ?s0 = "?p\<lparr>paused := False, isPlaying := True, startTime := 20, playbackPosition := 0\<rparr>"
  have resume: "set_paused stereoDevice 20 False ?p = scheduleNextChunk stereoDevice ?s0"
    unfolding p by (simp add: set_paused_def startPlayback_def play_def noOpt_def)
  have left: "\<forall>j::nat. (int (length (interleave oneSecondMono)) \<le>
      sourceIndex (?s0\<lparr>playbackPosition := playbackPosition ?s0 + real j\<rparr>)) = (44100 \<le> j)"
    by (rule frames_left_from_zero) (simp_all add: p)
  have pre: "audioBuffer ?s0 = Some (interleave oneSecondMono)" "isPlaying ?s0"
    "\<not> loop ?s0" "speed ?s0 = 1"
    by (simp_all add: p play_def noOpt_def)
  have dev: "0 < deviceChannels stereoDevice"
    by (simp add: stereoDevice_def)
  have big: "(2048::nat) \<le> 44100" by simp
  from scheduleNextChunk_full [OF pre dev left big]
  obtain c' where "scheduleNextChunk stereoDevice ?s0 =
       ?s0\<lparr>playbackPosition := playbackPosition ?s0 + 2048,
         queue := queue ?s0 @ [c'],
         playbackId := Some (nextTimer ?s0),
         timers := (timers ?s0)(nextTimer ?s0 \<mapsto>
           real (2048 * deviceChannels stereoDevice) / real (deviceChannels stereoDevice)
             / deviceFrequency stereoDevice * 1000 * 0.5),
         nextTimer := Suc (nextTimer ?s0)\<rparr>"
    by blast
  then have "playbackPosition (scheduleNextChunk stereoDevice ?s0) = 2048"
    by simp
  then show ?thesis
    using resume by (simp add: p)
qed

text \<open>
  On a paused sound handle \<open>seek\<close> writes \<open>seekPos\<close> and \<open>playbackPosition\<close>, and
  \<open>time()\<close> reads neither. The music handle stores the time it was sent to.
\<close>

lemma seek_paused_time_unchanged:
  "paused s \<Longrightarrow> getTime now (seek k now' t s) = getTime now s"
  by (simp add: seek_def getTime_def Let_def split: option.splits)

lemma music_seek_time:
  "audioData m \<noteq> None \<Longrightarrow> 0 \<le> t \<Longrightarrow> t \<le> Music.duration m \<Longrightarrow>
   music_time (music_seek t m) = t"
  by (auto simp: music_seek_def music_time_def clamp_def)

text \<open>
  C1. On a paused sound handle with a decoded buffer, \<open>seek(t)\<close> with
  \<open>0 \<le> t \<le> duration\<close> followed by \<open>time()\<close> is claimed to return \<open>t\<close> within one
  sample. On the handle created paused over the one-second source, \<open>seek(0.5)\<close>
  followed by \<open>time()\<close> returns 0, at any clock reading.
\<close>

theorem seek_then_time_sound:
  "getTime now (seek stereoDevice now (1 / 2) pausedHandle) = 0
   \<and> \<not> \<bar>getTime now (seek stereoDevice now (1 / 2) pausedHandle) - 1 / 2\<bar>
         \<le> 1 / sampleRate pausedHandle"
  by (simp add: seek_def getTime_def Let_def pausedHandle_fields)

text \<open>
  C10. On a sound handle whose buffer has decoded (one channel at least, a positive
  sample rate), \<open>seek(t)\<close> with \<open>t\<close> beyond the duration changes nothing: cursor,
  stored seek position, pause state, timers and queue are as before, and nothing is
  raised. The same holds while the buffer has not decoded yet.
\<close>

theorem seek_past_duration_noop:
  assumes "audioBuffer s = None \<or> (0 < channels s \<and> 0 < sampleRate s \<and> duration s < t)"
  shows "seek k now t s = s"
  using assms by (auto simp: seek_def duration_def Let_def split: option.splits)

theorem seek_past_duration_noop_witness:
  "seek stereoDevice 5 2 pausedHandle = pausedHandle"
proof -
  have "duration pausedHandle = 1"
    by (simp add: duration_def pausedHandle_fields)
  then show ?thesis
    using seek_past_duration_noop [of pausedHandle 2 stereoDevice 5]
    by (simp add: pausedHandle_fields)
qed

text \<open>
  C6. Writing \<open>v\<close> to the volume of a handle is claimed to store a value in
  \<open>0..1\<close>. A sound handle stores \<open>max(v, 0)\<close>: writing 2 stores 2.
\<close>

theorem volume_write_counterexample:
  "volume (set_volume 2 (play noOpt)) = 2 \<and> \<not> volume (set_volume 2 (play noOpt)) \<le> 1"
  by (simp add: set_volume_def)

text \<open>
  C6, amended. Writing \<open>v\<close> to the volume of a sound handle stores \<open>max(v, 0)\<close>, which
  is never negative and has no upper bound; writing it to the volume of a music handle
  stores a value in \<open>0..1\<close>.
\<close>

theorem volume_write_range:
  "volume (set_volume v s) = max v 0 \<and> 0 \<le> volume (set_volume v s)
   \<and> 0 \<le> Music.volume (music_set_volume v m) \<and> Music.volume (music_set_volume v m) \<le> 1"
  by (simp add: set_volume_def music_set_volume_def clamp_def)

section \<open>Frame scheduler\<close>

lemma fixedLoop_step:
  "fixedDt r < fixedAccumulatedDt r \<Longrightarrow>
   fixedLoop r =
   fixedLoop
     ((if fixedAccumulatedDt r - fixedDt r < fixedDt r
       then r\<lparr>fixedAccumulatedDt := fixedAccumulatedDt r - fixedDt r,
              restDt := fixedAccumulatedDt r - fixedDt r\<rparr>
       else r\<lparr>fixedAccumulatedDt := fixedAccumulatedDt r - fixedDt r\<rparr>)
      \<lparr>fixedUpdateCalls := Suc (fixedUpdateCalls r)\<rparr>)"
  by (subst fixedLoop.simps) simp

lemma fixedLoop_done:
  "\<not> fixedDt r < fixedAccumulatedDt r \<Longrightarrow> fixedLoop r = Some r"
  by (subst fixedLoop.simps) simp

lemma fixedLoop_two_steps:
  assumes "fixedDt r = 1 / 50" "1 / 20 \<le> fixedAccumulatedDt r" "fixedAccumulatedDt r < 3 / 50"
  shows "fixedLoop r =
     Some (r\<lparr>fixedAccumulatedDt := fixedAccumulatedDt r - 1 / 25,
              restDt := fixedAccumulatedDt r - 1 / 25,
              fixedUpdateCalls := Suc (Suc (fixedUpdateCalls r))\<rparr>)"
proof -
  let ?r1 = "r\<lparr>fixedAccumulatedDt := fixedAccumulatedDt r - 1 / 50,
                 fixedUpdateCalls := Suc (fixedUpdateCalls r)\<rparr>"
  let ?r2 = "r\<lparr>fixedAccumulatedDt := fixedAccumulatedDt r - 1 / 25,
              restDt := fixedAccumulatedDt r - 1 / 25,
              fixedUpdateCalls := Suc (Suc (fixedUpdateCalls r))\<rparr>"
  have "fixedLoop r = fixedLoop ?r1"
    using assms(2,3) by (subst fixedLoop_step) (simp_all add: assms(1))
  also have "\<dots> = fixedLoop ?r2"
    using assms(2,3) by (subst fixedLoop_step) (simp_all add: assms(1))
  also have "\<dots> = Some ?r2"
    using assms(2,3) by (subst fixedLoop_done) (simp_all add: assms(1))
  finally show ?thesis .
qed

text \<open>
  A frame that measures 0.05 s, entered with less than 0.01 s in the fixed-step
  accumulator, runs the fixed update twice.
\<close>

lemma frame_fixed_steps:
  assumes "fixedDt r = 1 / 50" "\<not> stopped r" "\<not> isHidden r" "\<not> skipTime r"
    and "accumulatedDt r = 0" "0 \<le> fixedAccumulatedDt r" "fixedAccumulatedDt r < 1 / 100"
    and "now - lastTime r = 1 / 20"
  shows "\<exists>r'. frame None now r = Some r'
      \<and> fixedUpdateCalls r' = fixedUpdateCalls r + 2
      \<and> 0 \<le> restDt r' \<and> restDt r' < 1 / 50"
proof -
  let ?r1 = "r\<lparr>frameScheduled := False, realTime := now, lastTime := now,
      accumulatedDt := 1 / 20, fixedAccumulatedDt := fixedAccumulatedDt r + 1 / 20,
      dt := 1 / 50, restDt := 0\<rparr>"
  have loop: "fixedLoop ?r1 =
     Some (?r1\<lparr>fixedAccumulatedDt := fixedAccumulatedDt ?r1 - 1 / 25,
              restDt := fixedAccumulatedDt ?r1 - 1 / 25,
              fixedUpdateCalls := Suc (Suc (fixedUpdateCalls ?r1))\<rparr>)"
    using assms(6,7) by (intro fixedLoop_two_steps) (simp_all add: assms(1))
  have dt: "now - lastTime r = 1 / 20" by (rule assms(8))
  show ?thesis
    using assms(6,7) loop
    by (simp add: frame_def Let_def assms(1-5) dt)
qed

text \<open>
  C4. With \<open>fixedDt = 0.02\<close>, no \<open>maxFPS\<close> cap and \<open>skipTime\<close> unset, the frame of
  a started scheduler that measures 0.05 s of real time (under the 0.25 s clamp) invokes
  the fixed update exactly twice, and \<open>restDt\<close> ends in \<open>[0, 0.02)\<close>.
\<close>

theorem first_frame_fixed_steps:
  assumes "fixedDt st = 1 / 50" "\<not> stopped st" "\<not> isHidden st" "\<not> skipTime st"
  shows "\<exists>r'. frame None (t0 + 1 / 20) (run t0 st) = Some r'
      \<and> fixedUpdateCalls r' = 2
      \<and> 0 \<le> restDt r' \<and> restDt r' < 1 / 50"
proof -
  have r: "fixedDt (run t0 st) = 1 / 50" "\<not> stopped (run t0 st)" "\<not> isHidden (run t0 st)"
    "\<not> skipTime (run t0 st)" "accumulatedDt (run t0 st) = 0"
    "0 \<le> fixedAccumulatedDt (run t0 st)" "fixedAccumulatedDt (run t0 st) < 1 / 100"
    "(t0 + 1 / 20) - lastTime (run t0 st) = 1 / 20"
    using assms(2,3,4) by (simp_all add: run_def AppState.defs assms(1))
  have "fixedUpdateCalls (run t0 st) = 0" by (simp add: run_def AppState.defs)
  with frame_fixed_steps [OF r] show ?thesis by (simp add: numeral_2_eq_2)
qed

theorem first_frame_fixed_steps_witness:
  "\<exists>r'. frame None (1 / 20) (run 0 initAppState) = Some r'
      \<and> fixedUpdateCalls r' = 2 \<and> 0 \<le> restDt r' \<and> restDt r' < 1 / 50"
proof -
  have "fixedDt initAppState = 1 / 50" "\<not> stopped initAppState" "\<not> isHidden initAppState"
    "\<not> skipTime initAppState"
    by (simp_all add: initAppState_def)
  from first_frame_fixed_steps [OF this, of 0] show ?thesis by simp
qed

section \<open>Gamepad button polling\<close>

text \<open>
  As long as the controller's button names are not empty, a button that is down on a
  gamepad is still down after polling, whatever the device reports.
\<close>

lemma pressBound_gamepadStates:
  "gamepadStates (pressBound btns st) = gamepadStates st"
  unfolding pressBound_def
  by (induction btns arbitrary: st) simp_all

lemma processButton_keeps_down:
  assumes "map fst controllerButtons ! i \<noteq> []" "isDown gp b st"
  shows "isDown gp b (processButton mb gp controllerButtons i st)"
  using assms
  by (auto simp: isDown_def processButton_def Let_def pressBound_gamepadStates press_def
      split: option.splits)

lemma processButtons_keeps_down:
  assumes "\<forall>n \<in> set (map fst controllerButtons). n \<noteq> []" "isDown gp b st"
  shows "isDown gp b (processButtons mb gp controllerButtons st)"
proof -
  have "isDown gp b (fold (processButton mb gp controllerButtons) is st)"
    if "\<forall>i \<in> set is. i < length controllerButtons" "isDown gp b st" for "is" st
    using that
  proof (induction "is" arbitrary: st)
    case Nil
    then show ?case by simp
  next
    case (Cons i "is")
    have "map fst controllerButtons ! i \<noteq> []"
      using Cons.prems(1) assms(1) by (metis length_map list.set_intros(1) nth_mem)
    then have "isDown gp b (processButton mb gp controllerButtons i st)"
      using Cons.prems(2) by (rule processButton_keeps_down)
    then show ?case
      using Cons.prems(1) Cons.IH by simp
  qed
  then show ?thesis
    using assms(2) by (simp add: processButtons_def)
qed

text \<open>
  C3. For a button index of the mapping table that the device reports as not pressed
  while the button is in the gamepad's down set, polling is claimed to release the
  button on the merged and the per-gamepad state, to release every bound virtual button
  and to emit the release notification. With \<open>south\<close> held on gamepad 0, \<open>jump\<close>
  bound to it, and the device reporting its button \<open>a\<close> (index 0, mapped to \<open>south\<close>)
  as not pressed, polling emits the down notification alone and releases nothing.
\<close>

theorem unpressed_button_not_released:
  "events (processButtons [0 \<mapsto> ''south''] 0 [(''a'', False)] heldSouth)
     = [GamepadButtonDown ''south'' 0]
   \<and> isDown 0 ''south'' (processButtons [0 \<mapsto> ''south''] 0 [(''a'', False)] heldSouth)
   \<and> mergedGamepadState (processButtons [0 \<mapsto> ''south''] 0 [(''a'', False)] heldSouth)
     = mergedGamepadState heldSouth
   \<and> ''south'' \<in> down (GamepadState.buttonState (mergedGamepadState heldSouth))
   \<and> buttonState (processButtons [0 \<mapsto> ''south''] 0 [(''a'', False)] heldSouth)
     = buttonState heldSouth
   \<and> ''jump'' \<in> down (buttonState heldSouth)"
  by (simp add: processButtons_def processButton_def heldSouth_def initAppState_def
      newGamepadState_def newButtonState_def press_def isDown_def Let_def)

end
